theory Spec2Isabelle
  imports Main "HOL-Library.Word"
begin

section \<open>JavaScript values\<close>

text \<open>
  The services are JavaScript: their arguments and the bodies of HTTP responses are
  dynamically typed. A value is one of the JSON-shaped values below. A string is a list
  of characters, one \<^typ>\<open>char\<close> for one code unit; the code units up to \<open>0xFF\<close>
  have a character of their own.
  \<open>JNum\<close> holds an integral Number exactly; \<open>JFrac\<close> holds a Number that a JSON
  text wrote with a fraction or an exponent, kept as that literal. An object is the
  list of its own properties in insertion order.
\<close>

datatype jsval =
    JUndefined
  | JNull
  | JBool bool
  | JNum int
  | JFrac string
  | JStr string
  | JArr "jsval list"
  | JObj "(string \<times> jsval) list"

definition is_digit :: "char \<Rightarrow> bool" where
  "is_digit c = (c \<in> set ''0123456789'')"

text \<open>\<open>ToBoolean\<close>: \<open>undefined\<close>, \<open>null\<close>, \<open>false\<close>, \<open>0\<close> and the empty string are falsy.\<close>

fun truthy :: "jsval \<Rightarrow> bool" where
  "truthy JUndefined = False"
| "truthy JNull = False"
| "truthy (JBool b) = b"
| "truthy (JNum n) = (n \<noteq> 0)"
| "truthy (JFrac l) =
     (\<exists>c \<in> set (takeWhile (\<lambda>c. c \<noteq> CHR ''e'' \<and> c \<noteq> CHR ''E'') l). is_digit c \<and> c \<noteq> CHR ''0'')"
| "truthy (JStr s) = (s \<noteq> [])"
| "truthy (JArr xs) = True"
| "truthy (JObj kvs) = True"

text \<open>\<open>a || b\<close> on values.\<close>

definition js_or :: "jsval \<Rightarrow> jsval \<Rightarrow> jsval" where
  "js_or a b = (if truthy a then a else b)"

subsection \<open>Strings\<close>

text \<open>The white space that \<open>String.prototype.trim\<close> removes, among the code units up to \<open>0xFF\<close>.\<close>

definition is_js_space :: "char \<Rightarrow> bool" where
  "is_js_space c = (c \<in> {CHR 0x09, CHR 0x0A, CHR 0x0B, CHR 0x0C, CHR 0x0D, CHR 0x20, CHR 0xA0})"

definition trim :: "string \<Rightarrow> string" where
  "trim s = rev (dropWhile is_js_space (rev (dropWhile is_js_space s)))"

text \<open>\<open>s.substring(0, n)\<close>.\<close>

definition substring0 :: "nat \<Rightarrow> string \<Rightarrow> string" where
  "substring0 n s = take n s"

definition starts_with :: "string \<Rightarrow> string \<Rightarrow> bool" where
  "starts_with s sub = (take (length sub) s = sub)"

text \<open>\<open>s.includes(sub)\<close>.\<close>

fun str_includes :: "string \<Rightarrow> string \<Rightarrow> bool" where
  "str_includes [] sub = (sub = [])"
| "str_includes (c # cs) sub = (starts_with (c # cs) sub \<or> str_includes cs sub)"

text \<open>\<open>s.replace(/c/g, by)\<close> for a one-character pattern.\<close>

definition replace_char :: "char \<Rightarrow> string \<Rightarrow> string \<Rightarrow> string" where
  "replace_char c r s = concat (map (\<lambda>x. if x = c then r else [x]) s)"

text \<open>\<open>s.replace(/\\q/g, q)\<close>: every backslash followed by \<open>q\<close> becomes \<open>q\<close>, scanning left to right.\<close>

fun unescape_char :: "char \<Rightarrow> string \<Rightarrow> string" where
  "unescape_char q (a # b # cs) =
     (if a = CHR 0x5C \<and> b = q then q # unescape_char q cs else a # unescape_char q (b # cs))"
| "unescape_char q cs = cs"

text \<open>Decimal digits of a natural number, and \<open>Number.prototype.toString\<close> on integers.\<close>

fun nat_digits :: "nat \<Rightarrow> string" where
  "nat_digits n =
     (if n < 10 then [''0123456789'' ! n]
      else nat_digits (n div 10) @ [''0123456789'' ! (n mod 10)])"

declare nat_digits.simps [simp del]

definition int_to_string :: "int \<Rightarrow> string" where
  "int_to_string i = (if i < 0 then CHR ''-'' # nat_digits (nat (- i)) else nat_digits (nat i))"

text \<open>\<open>xs.join(sep)\<close> on strings.\<close>

fun join :: "string \<Rightarrow> string list \<Rightarrow> string" where
  "join sep [] = []"
| "join sep [x] = x"
| "join sep (x # y # ys) = x @ sep @ join sep (y # ys)"

text \<open>
  \<open>ToString\<close>, as a template literal applies it: an array joins its elements with
  commas (\<open>null\<close> and \<open>undefined\<close> elements as the empty string).
\<close>

fun ToString :: "jsval \<Rightarrow> string" where
  "ToString JUndefined = ''undefined''"
| "ToString JNull = ''null''"
| "ToString (JBool b) = (if b then ''true'' else ''false'')"
| "ToString (JNum n) = int_to_string n"
| "ToString (JFrac l) = l"
| "ToString (JStr s) = s"
| "ToString (JArr xs) =
     join '','' (map (\<lambda>x. if x = JNull \<or> x = JUndefined then [] else ToString x) xs)"
| "ToString (JObj kvs) = ''[object Object]''"

subsection \<open>Property access\<close>

text \<open>Own properties of an object literal: a later write to a key replaces its value in place.\<close>

fun obj_set :: "(string \<times> jsval) list \<Rightarrow> string \<Rightarrow> jsval \<Rightarrow> (string \<times> jsval) list" where
  "obj_set [] k v = [(k, v)]"
| "obj_set ((k', v') # kvs) k v = (if k' = k then (k, v) # kvs else (k', v') # obj_set kvs k v)"

definition obj_get :: "(string \<times> jsval) list \<Rightarrow> string \<Rightarrow> jsval" where
  "obj_get kvs k = (case map_of kvs k of None \<Rightarrow> JUndefined | Some v \<Rightarrow> v)"

text \<open>\<open>{...a, ...b}\<close>.\<close>

definition obj_spread :: "(string \<times> jsval) list \<Rightarrow> (string \<times> jsval) list \<Rightarrow> (string \<times> jsval) list" where
  "obj_spread a b = fold (\<lambda>(k, v) acc. obj_set acc k v) b (fold (\<lambda>(k, v) acc. obj_set acc k v) a [])"

subsection \<open>Errors\<close>

text \<open>
  What a \<open>throw\<close> or a rejected promise carries. \<open>Error\<close> is \<open>new Error(message)\<close>
  built by the services themselves; \<open>TypeError\<close> and \<open>SyntaxError\<close> come from the
  runtime; \<open>AxiosError\<close> is a rejection of the HTTP client, with \<open>error.response\<close>
  (status and body) when the server answered and a flag for \<open>error.request\<close>;
  \<open>ExternalError\<close> is a rejection of the database driver or the file system. The
  messages of the errors of the runtime are the engine's; the ones written here follow
  V8, and no property below depends on their text.
\<close>

datatype http_response = Response (res_status: nat) (res_data: jsval)

datatype error =
    Error string
  | TypeError string
  | SyntaxError string
  | AxiosError string "http_response option" bool
  | ExternalError string

fun message :: "error \<Rightarrow> string" where
  "message (Error m) = m"
| "message (TypeError m) = m"
| "message (SyntaxError m) = m"
| "message (AxiosError m r q) = m"
| "message (ExternalError m) = m"

fun error_response :: "error \<Rightarrow> http_response option" where
  "error_response (AxiosError m r q) = r"
| "error_response e = None"

fun error_request :: "error \<Rightarrow> bool" where
  "error_request (AxiosError m r q) = q"
| "error_request e = False"

text \<open>
  \<open>v.name\<close>: reading a property of \<open>undefined\<close> or \<open>null\<close> throws; a value that is
  not an object has none of the properties the services read, except \<open>length\<close>.
\<close>

definition get_member :: "jsval \<Rightarrow> string \<Rightarrow> error + jsval" where
  "get_member v name =
     (case v of
        JUndefined \<Rightarrow> Inl (TypeError (''Cannot read properties of undefined (reading '' @ [CHR 0x27] @ name @ [CHR 0x27] @ '')''))
      | JNull \<Rightarrow> Inl (TypeError (''Cannot read properties of null (reading '' @ [CHR 0x27] @ name @ [CHR 0x27] @ '')''))
      | JObj kvs \<Rightarrow> Inr (obj_get kvs name)
      | JArr xs \<Rightarrow> Inr (if name = ''length'' then JNum (int (length xs)) else JUndefined)
      | JStr s \<Rightarrow> Inr (if name = ''length'' then JNum (int (length s)) else JUndefined)
      | _ \<Rightarrow> Inr JUndefined)"

text \<open>\<open>v?.name\<close>.\<close>

definition opt_member :: "jsval \<Rightarrow> string \<Rightarrow> jsval" where
  "opt_member v name =
     (case get_member v name of Inl e \<Rightarrow> JUndefined | Inr x \<Rightarrow> x)"

text \<open>\<open>v[0]\<close> and \<open>v?.[0]\<close>.\<close>

definition get_first :: "jsval \<Rightarrow> error + jsval" where
  "get_first v =
     (case v of
        JUndefined \<Rightarrow> Inl (TypeError (''Cannot read properties of undefined (reading '' @ [CHR 0x27] @ ''0'' @ [CHR 0x27] @ '')''))
      | JNull \<Rightarrow> Inl (TypeError (''Cannot read properties of null (reading '' @ [CHR 0x27] @ ''0'' @ [CHR 0x27] @ '')''))
      | JObj kvs \<Rightarrow> Inr (obj_get kvs ''0'')
      | JArr xs \<Rightarrow> Inr (case xs of [] \<Rightarrow> JUndefined | x # _ \<Rightarrow> x)
      | JStr s \<Rightarrow> Inr (case s of [] \<Rightarrow> JUndefined | c # _ \<Rightarrow> JStr [c])
      | _ \<Rightarrow> Inr JUndefined)"

definition opt_first :: "jsval \<Rightarrow> jsval" where
  "opt_first v = (case get_first v of Inl e \<Rightarrow> JUndefined | Inr x \<Rightarrow> x)"

subsection \<open>\<open>JSON.stringify\<close>\<close>

definition quote_char :: "char \<Rightarrow> string" where
  "quote_char c =
     (if c = CHR 0x22 then [CHR 0x5C, CHR 0x22]
      else if c = CHR 0x5C then [CHR 0x5C, CHR 0x5C]
      else if c = CHR 0x08 then [CHR 0x5C, CHR ''b'']
      else if c = CHR 0x0C then [CHR 0x5C, CHR ''f'']
      else if c = CHR 0x0A then [CHR 0x5C, CHR ''n'']
      else if c = CHR 0x0D then [CHR 0x5C, CHR ''r'']
      else if c = CHR 0x09 then [CHR 0x5C, CHR ''t'']
      else if (of_char c :: nat) < 32
        then [CHR 0x5C, CHR ''u'', CHR ''0'', CHR ''0'',
              ''0123456789abcdef'' ! (of_char c div 16), ''0123456789abcdef'' ! (of_char c mod 16)]
      else [c])"

definition quote_string :: "string \<Rightarrow> string" where
  "quote_string s = [CHR 0x22] @ concat (map quote_char s) @ [CHR 0x22]"

text \<open>
  The serialisation of a value; \<open>None\<close> is the result \<open>undefined\<close>. An \<open>undefined\<close>
  array element is written \<open>null\<close>, an \<open>undefined\<close> property is left out.
\<close>

fun JSON_serialize :: "jsval \<Rightarrow> string option" where
  "JSON_serialize JUndefined = None"
| "JSON_serialize JNull = Some ''null''"
| "JSON_serialize (JBool b) = Some (if b then ''true'' else ''false'')"
| "JSON_serialize (JNum n) = Some (int_to_string n)"
| "JSON_serialize (JFrac l) = Some l"
| "JSON_serialize (JStr s) = Some (quote_string s)"
| "JSON_serialize (JArr xs) =
     Some (''['' @ join '','' (map (\<lambda>x. case JSON_serialize x of None \<Rightarrow> ''null'' | Some t \<Rightarrow> t) xs) @ '']'')"
| "JSON_serialize (JObj kvs) =
     Some (''{'' @ join '',''
        (concat (map (\<lambda>kv. case JSON_serialize (snd kv) of None \<Rightarrow> []
                            | Some t \<Rightarrow> [quote_string (fst kv) @ '':'' @ t]) kvs)) @ ''}'')"

definition JSON_stringify :: "jsval \<Rightarrow> jsval" where
  "JSON_stringify v = (case JSON_serialize v of None \<Rightarrow> JUndefined | Some t \<Rightarrow> JStr t)"

subsection \<open>\<open>JSON.parse\<close>\<close>

text \<open>
  The JSON grammar, read in two passes. The first pass cuts the text into tokens, one
  character at a time; a number or a word is the longest run of characters that can
  belong to one, checked against the grammar when it ends (two scalars with nothing
  between them are never JSON, so the longest run loses no text).
\<close>

datatype token = TLBrace | TRBrace | TLBrack | TRBrack | TComma | TColon | TLit jsval

datatype lex_mode =
    Idle
  | InStr string
  | InEsc string
  | InUni string "nat list"
  | InNum string
  | InWord string

definition hexval :: "char \<Rightarrow> nat option" where
  "hexval c =
     (if is_digit c then Some (of_char c - 48)
      else if c \<in> set ''abcdef'' then Some (of_char c - 87)
      else if c \<in> set ''ABCDEF'' then Some (of_char c - 55)
      else None)"

definition digits_value :: "string \<Rightarrow> nat" where
  "digits_value ds = foldl (\<lambda>a c. 10 * a + (of_char c - 48)) 0 ds"

text \<open>\<open>-? (0 | [1-9][0-9]*) (. [0-9]+)? ([eE] [+-]? [0-9]+)?\<close>\<close>

definition number_token :: "string \<Rightarrow> token option" where
  "number_token l =
     (let neg = starts_with l ''-'';
          body = (if neg then tl l else l);
          ip = takeWhile is_digit body;
          r1 = dropWhile is_digit body;
          has_frac = starts_with r1 ''.'';
          fd = (if has_frac then takeWhile is_digit (tl r1) else []);
          r2 = (if has_frac then dropWhile is_digit (tl r1) else r1);
          has_exp = (r2 \<noteq> [] \<and> (hd r2 = CHR ''e'' \<or> hd r2 = CHR ''E''));
          r3 = (if has_exp then tl r2 else r2);
          r4 = (if has_exp \<and> r3 \<noteq> [] \<and> (hd r3 = CHR ''+'' \<or> hd r3 = CHR ''-'') then tl r3 else r3);
          ed = takeWhile is_digit r4;
          r5 = dropWhile is_digit r4
      in if ip = [] \<or> (hd ip = CHR ''0'' \<and> length ip > 1) \<or> (has_frac \<and> fd = [])
            \<or> (has_exp \<and> (ed = [] \<or> r5 \<noteq> [])) \<or> (\<not> has_exp \<and> r2 \<noteq> [])
         then None
         else if has_frac \<or> has_exp then Some (TLit (JFrac l))
         else Some (TLit (JNum (if neg then - int (digits_value ip) else int (digits_value ip)))))"

definition word_token :: "string \<Rightarrow> token option" where
  "word_token l =
     (if l = ''true'' then Some (TLit (JBool True))
      else if l = ''false'' then Some (TLit (JBool False))
      else if l = ''null'' then Some (TLit JNull)
      else None)"

text \<open>A character read between tokens.\<close>

definition idle_char :: "char \<Rightarrow> (lex_mode \<times> token list) option" where
  "idle_char c =
     (if c \<in> {CHR 0x20, CHR 0x09, CHR 0x0A, CHR 0x0D} then Some (Idle, [])
      else if c = CHR ''{'' then Some (Idle, [TLBrace])
      else if c = CHR ''}'' then Some (Idle, [TRBrace])
      else if c = CHR ''['' then Some (Idle, [TLBrack])
      else if c = CHR '']'' then Some (Idle, [TRBrack])
      else if c = CHR '','' then Some (Idle, [TComma])
      else if c = CHR '':'' then Some (Idle, [TColon])
      else if c = CHR 0x22 then Some (InStr [], [])
      else if c = CHR ''-'' \<or> is_digit c then Some (InNum [c], [])
      else if c \<in> set ''abcdefghijklmnopqrstuvwxyz'' then Some (InWord [c], [])
      else None)"

text \<open>
  One character in each mode. Inside a string the text so far is kept reversed. A
  control character may not stand in a string unescaped. An escape \<open>\uXXXX\<close> is one
  code unit of the string. Above \<open>00FF\<close> the code unit has no character of its own in
  this model and is read as the one character \<open>?\<close>: the text parses as in
  \<open>JSON.parse\<close>, every string has the length it has there, and only which code unit
  above \<open>00FF\<close> it was is not kept.
\<close>

fun lex_step :: "lex_mode \<Rightarrow> char \<Rightarrow> (lex_mode \<times> token list) option" where
  "lex_step Idle c = idle_char c"
| "lex_step (InStr acc) c =
     (if c = CHR 0x22 then Some (Idle, [TLit (JStr (rev acc))])
      else if c = CHR 0x5C then Some (InEsc acc, [])
      else if (of_char c :: nat) < 32 then None
      else Some (InStr (c # acc), []))"
| "lex_step (InEsc acc) c =
     (if c = CHR 0x22 \<or> c = CHR 0x5C \<or> c = CHR ''/'' then Some (InStr (c # acc), [])
      else if c = CHR ''b'' then Some (InStr (CHR 0x08 # acc), [])
      else if c = CHR ''f'' then Some (InStr (CHR 0x0C # acc), [])
      else if c = CHR ''n'' then Some (InStr (CHR 0x0A # acc), [])
      else if c = CHR ''r'' then Some (InStr (CHR 0x0D # acc), [])
      else if c = CHR ''t'' then Some (InStr (CHR 0x09 # acc), [])
      else if c = CHR ''u'' then Some (InUni acc [], [])
      else None)"
| "lex_step (InUni acc hs) c =
     (case hexval c of
        None \<Rightarrow> None
      | Some d \<Rightarrow>
          if length hs < 3 then Some (InUni acc (hs @ [d]), [])
          else (let n = foldl (\<lambda>a h. 16 * a + h) 0 (hs @ [d])
                in Some (InStr ((if n < 256 then char_of n else CHR ''?'') # acc), [])))"
| "lex_step (InNum l) c =
     (if is_digit c \<or> c \<in> set ''+-.eE'' then Some (InNum (l @ [c]), [])
      else (case number_token l of
              None \<Rightarrow> None
            | Some t \<Rightarrow> (case idle_char c of None \<Rightarrow> None | Some (m, ts) \<Rightarrow> Some (m, t # ts))))"
| "lex_step (InWord l) c =
     (if c \<in> set ''abcdefghijklmnopqrstuvwxyz'' then Some (InWord (l @ [c]), [])
      else (case word_token l of
              None \<Rightarrow> None
            | Some t \<Rightarrow> (case idle_char c of None \<Rightarrow> None | Some (m, ts) \<Rightarrow> Some (m, t # ts))))"

fun lex :: "lex_mode \<Rightarrow> string \<Rightarrow> token list option" where
  "lex m [] =
     (case m of
        Idle \<Rightarrow> Some []
      | InNum l \<Rightarrow> map_option (\<lambda>t. [t]) (number_token l)
      | InWord l \<Rightarrow> map_option (\<lambda>t. [t]) (word_token l)
      | _ \<Rightarrow> None)"
| "lex m (c # cs) =
     (case lex_step m c of
        None \<Rightarrow> None
      | Some (m', ts) \<Rightarrow> map_option (\<lambda>rest. ts @ rest) (lex m' cs))"

text \<open>
  The second pass builds the value from the tokens with a stack of the containers that
  are open: an array with its elements so far (reversed), an object with its
  properties so far and the key whose value is being read.
\<close>

datatype frame = FArr "jsval list" | FObj "(string \<times> jsval) list" "string option"

datatype phase =
    PValue
  | PArrStart
  | PObjStart
  | PKey
  | PColon
  | PAfter jsval

definition begin_value :: "frame list \<Rightarrow> token \<Rightarrow> (frame list \<times> phase) option" where
  "begin_value st t =
     (case t of
        TLit v \<Rightarrow> Some (st, PAfter v)
      | TLBrack \<Rightarrow> Some (FArr [] # st, PArrStart)
      | TLBrace \<Rightarrow> Some (FObj [] None # st, PObjStart)
      | _ \<Rightarrow> None)"

definition begin_key :: "frame list \<Rightarrow> token \<Rightarrow> (frame list \<times> phase) option" where
  "begin_key st t =
     (case (st, t) of
        (FObj kvs _ # st', TLit (JStr k)) \<Rightarrow> Some (FObj kvs (Some k) # st', PColon)
      | _ \<Rightarrow> None)"

fun parse_step :: "frame list \<times> phase \<Rightarrow> token \<Rightarrow> (frame list \<times> phase) option" where
  "parse_step (st, PValue) t = begin_value st t"
| "parse_step (st, PArrStart) t =
     (case (st, t) of
        (FArr [] # st', TRBrack) \<Rightarrow> Some (st', PAfter (JArr []))
      | _ \<Rightarrow> begin_value st t)"
| "parse_step (st, PObjStart) t =
     (case (st, t) of
        (FObj [] None # st', TRBrace) \<Rightarrow> Some (st', PAfter (JObj []))
      | _ \<Rightarrow> begin_key st t)"
| "parse_step (st, PKey) t = begin_key st t"
| "parse_step (st, PColon) t = (case t of TColon \<Rightarrow> Some (st, PValue) | _ \<Rightarrow> None)"
| "parse_step (st, PAfter v) t =
     (case (st, t) of
        (FArr es # st', TComma) \<Rightarrow> Some (FArr (v # es) # st', PValue)
      | (FArr es # st', TRBrack) \<Rightarrow> Some (st', PAfter (JArr (rev (v # es))))
      | (FObj kvs (Some k) # st', TComma) \<Rightarrow> Some (FObj (obj_set kvs k v) None # st', PKey)
      | (FObj kvs (Some k) # st', TRBrace) \<Rightarrow> Some (st', PAfter (JObj (obj_set kvs k v)))
      | _ \<Rightarrow> None)"

fun parse_tokens :: "frame list \<times> phase \<Rightarrow> token list \<Rightarrow> jsval option" where
  "parse_tokens (st, ph) [] = (case (st, ph) of ([], PAfter v) \<Rightarrow> Some v | _ \<Rightarrow> None)"
| "parse_tokens (st, ph) (t # ts) =
     (case parse_step (st, ph) t of None \<Rightarrow> None | Some c \<Rightarrow> parse_tokens c ts)"

text \<open>\<open>JSON.parse(text)\<close> on a string; the message of the \<open>SyntaxError\<close> is the engine's and is not modelled.\<close>

definition JSON_parse :: "string \<Rightarrow> error + jsval" where
  "JSON_parse text =
     (case lex Idle text of
        None \<Rightarrow> Inl (SyntaxError ''Unexpected token in JSON'')
      | Some ts \<Rightarrow>
          (case parse_tokens ([], PValue) ts of
             None \<Rightarrow> Inl (SyntaxError ''Unexpected token in JSON'')
           | Some v \<Rightarrow> Inr v))"

subsection \<open>Base64\<close>

text \<open>\<open>Buffer.from(bytes).toString('base64')\<close>.\<close>

definition b64_char :: "nat \<Rightarrow> char" where
  "b64_char n = ''ABCDEFGHIJKLMNOPQRSTUVWXYZabcdefghijklmnopqrstuvwxyz0123456789+/'' ! n"

fun base64_encode :: "8 word list \<Rightarrow> string" where
  "base64_encode (a # b # c # rest) =
     [b64_char (unat a div 4), b64_char ((unat a mod 4) * 16 + unat b div 16),
      b64_char ((unat b mod 16) * 4 + unat c div 64), b64_char (unat c mod 64)] @ base64_encode rest"
| "base64_encode [a, b] =
     [b64_char (unat a div 4), b64_char ((unat a mod 4) * 16 + unat b div 16),
      b64_char ((unat b mod 16) * 4), CHR ''='']"
| "base64_encode [a] = [b64_char (unat a div 4), b64_char ((unat a mod 4) * 16), CHR ''='', CHR ''='']"
| "base64_encode [] = []"

text \<open>
  \<open>Buffer.from(value, 'base64')\<close> accepts a string, an array and an array-like object
  and throws a \<open>TypeError\<close> on any other value. The buffer is kept as the value it was
  made from: \<open>JStr t\<close> stands for the bytes that the base64 text \<open>t\<close> decodes to.
\<close>

fun isArray :: "jsval \<Rightarrow> bool" where
  "isArray (JArr xs) = True"
| "isArray v = False"

definition Buffer_from :: "jsval \<Rightarrow> error + jsval" where
  "Buffer_from v =
     (case v of
        JStr t \<Rightarrow> Inr v
      | JArr xs \<Rightarrow> Inr v
      | JObj kvs \<Rightarrow>
          if truthy (obj_get kvs ''valueOf'') then Inl (TypeError ''value.valueOf is not a function'')
          else if obj_get kvs ''length'' \<noteq> JUndefined then Inr v
          else if obj_get kvs ''type'' = JStr ''Buffer'' \<and> isArray (obj_get kvs ''data'') then Inr v
          else Inl (TypeError ''The first argument must be of type string or an instance of Buffer, ArrayBuffer, or Array or an Array-like Object.'')
      | _ \<Rightarrow> Inl (TypeError ''The first argument must be of type string or an instance of Buffer, ArrayBuffer, or Array or an Array-like Object.''))"

section \<open>The collaborators and the state\<close>

text \<open>
  What a call does to the outside is recorded as the list of its requests, in order:
  statements given to \<open>pool.execute\<close>, HTTP requests, files written and deleted.
\<close>

datatype event =
    DbExecute string "jsval list"
  | HttpPost string jsval
  | HttpGet jsval
  | FsWriteFile string jsval
  | FsUnlink string

text \<open>
  The collaborators are parameters: the environment variables, the uploads directory
  and \<open>path.join\<close>, the clock, the random suffix
  \<open>Math.random().toString(36).substring(7)\<close>, the database pool, the HTTP client and
  the file system. Each answer may depend on everything requested before it.
\<close>

record world =
  OPENAI_API_KEY :: jsval
  OPENROUTER_API_KEY :: jsval
  UPLOADS_DIR :: string
  path_join :: "string \<Rightarrow> string \<Rightarrow> string"
  Date_now :: "event list \<Rightarrow> nat"
  Math_random_suffix :: "event list \<Rightarrow> string"
  pool_execute :: "event list \<Rightarrow> string \<Rightarrow> jsval list \<Rightarrow> error + jsval"
  axios_post :: "event list \<Rightarrow> string \<Rightarrow> jsval \<Rightarrow> error + http_response"
  axios_get :: "event list \<Rightarrow> jsval \<Rightarrow> error + 8 word list"
  fs_writeFile :: "event list \<Rightarrow> string \<Rightarrow> jsval \<Rightarrow> error option"
  fs_unlink :: "event list \<Rightarrow> string \<Rightarrow> error option"

text \<open>
  The state: the module variable \<open>apiKeyValidated\<close>, the paths that exist on disk,
  and the requests made so far.
\<close>

record state =
  apiKeyValidated :: bool
  disk :: "string set"
  trace :: "event list"

text \<open>An asynchronous function is a state transformer that returns a value or throws.\<close>

type_synonym 'a io = "state \<Rightarrow> (error + 'a) \<times> state"

definition returnE :: "'a \<Rightarrow> 'a io" where
  "returnE v s = (Inr v, s)"

definition throwE :: "error \<Rightarrow> 'a io" where
  "throwE e s = (Inl e, s)"

definition liftE :: "error + 'a \<Rightarrow> 'a io" where
  "liftE r s = (r, s)"

definition bindE :: "'a io \<Rightarrow> ('a \<Rightarrow> 'b io) \<Rightarrow> 'b io" where
  "bindE m f s = (case m s of (Inl e, s') \<Rightarrow> (Inl e, s') | (Inr v, s') \<Rightarrow> f v s')"

text \<open>\<open>try { m } catch (error) { h error }\<close>\<close>

definition catchE :: "'a io \<Rightarrow> (error \<Rightarrow> 'a io) \<Rightarrow> 'a io" where
  "catchE m h s = (case m s of (Inl e, s') \<Rightarrow> h e s' | (Inr v, s') \<Rightarrow> (Inr v, s'))"

definition io_pool_execute :: "world \<Rightarrow> string \<Rightarrow> jsval list \<Rightarrow> jsval io" where
  "io_pool_execute w sql params s =
     (pool_execute w (trace s) sql params, s\<lparr>trace := trace s @ [DbExecute sql params]\<rparr>)"

definition io_axios_post :: "world \<Rightarrow> string \<Rightarrow> jsval \<Rightarrow> http_response io" where
  "io_axios_post w url body s =
     (axios_post w (trace s) url body, s\<lparr>trace := trace s @ [HttpPost url body]\<rparr>)"

definition io_axios_get :: "world \<Rightarrow> jsval \<Rightarrow> (8 word list) io" where
  "io_axios_get w url s =
     (axios_get w (trace s) url, s\<lparr>trace := trace s @ [HttpGet url]\<rparr>)"

definition io_writeFile :: "world \<Rightarrow> string \<Rightarrow> jsval \<Rightarrow> unit io" where
  "io_writeFile w path buffer s =
     (case fs_writeFile w (trace s) path buffer of
        Some e \<Rightarrow> (Inl e, s\<lparr>trace := trace s @ [FsWriteFile path buffer]\<rparr>)
      | None \<Rightarrow> (Inr (), s\<lparr>disk := insert path (disk s), trace := trace s @ [FsWriteFile path buffer]\<rparr>))"

definition io_unlink :: "world \<Rightarrow> string \<Rightarrow> unit io" where
  "io_unlink w path s =
     (case fs_unlink w (trace s) path of
        Some e \<Rightarrow> (Inl e, s\<lparr>trace := trace s @ [FsUnlink path]\<rparr>)
      | None \<Rightarrow> (Inr (), s\<lparr>disk := disk s - {path}, trace := trace s @ [FsUnlink path]\<rparr>))"

section \<open>services/openAIService.js\<close>

text \<open>
  The module exports \<open>generateImage\<close> only. Its \<open>pool\<close> comes from the module
  \<open>../database\<close> and is the parameter \<open>pool_execute\<close>. The functions
  \<open>processReferenceImages\<close> and \<open>makeEditsRequest\<close> are called from nowhere and are
  not modelled; what the module writes to the console is left out.
\<close>

text \<open>\<open>prompt.trim()\<close> on a value.\<close>

definition js_trim :: "jsval \<Rightarrow> error + string" where
  "js_trim v =
     (case v of
        JStr t \<Rightarrow> Inr (trim t)
      | JUndefined \<Rightarrow> Inl (TypeError (''Cannot read properties of undefined (reading '' @ [CHR 0x27] @ ''trim'' @ [CHR 0x27] @ '')''))
      | JNull \<Rightarrow> Inl (TypeError (''Cannot read properties of null (reading '' @ [CHR 0x27] @ ''trim'' @ [CHR 0x27] @ '')''))
      | _ \<Rightarrow> Inl (TypeError ''prompt.trim is not a function''))"

definition validateInputs :: "world \<Rightarrow> jsval \<Rightarrow> jsval \<Rightarrow> unit io" where
  "validateInputs w ideaId prompt s =
     (if \<not> truthy ideaId then (Inl (Error ''Idea ID is required for image generation''), s)
      else case (if \<not> truthy prompt then Inr True
                 else case js_trim prompt of Inl e \<Rightarrow> Inl e | Inr t \<Rightarrow> Inr (length t = 0)) of
             Inl e \<Rightarrow> (Inl e, s)
           | Inr True \<Rightarrow> (Inl (Error ''Prompt is required for image generation''), s)
           | Inr False \<Rightarrow>
               if \<not> apiKeyValidated s \<and> \<not> truthy (OPENAI_API_KEY w)
               then (Inl (Error ''OpenAI API key is missing. Please check your .env file.''), s)
               else (Inr (), s\<lparr>apiKeyValidated := True\<rparr>))"

text \<open>\<open>additionalFields\<close> is the object given, \<open>[]\<close> for the default \<open>{}\<close>.\<close>

definition updatePaintingStatus :: "world \<Rightarrow> jsval \<Rightarrow> jsval \<Rightarrow> (string \<times> jsval) list \<Rightarrow> unit io" where
  "updatePaintingStatus w ideaId status additionalFields =
     (let baseFields = [(''status'', status)];
          fields = obj_spread baseFields additionalFields;
          setClause = join '', '' (map (\<lambda>key. key @ '' = ?'') (map fst fields));
          values = map snd fields @ [ideaId]
      in if JUndefined \<in> set values then throwE (Error ''Invalid query parameter detected'')
         else bindE (io_pool_execute w (''UPDATE paintings SET '' @ setClause @ '' WHERE idea_id = ?'') values)
                (\<lambda>_. returnE ()))"

subsection \<open>TempFileManager\<close>

record TempFileManager =
  tempFiles :: "string list"

definition new_TempFileManager :: TempFileManager where
  "new_TempFileManager = \<lparr>tempFiles = []\<rparr>"

definition createTempFile ::
  "world \<Rightarrow> TempFileManager \<Rightarrow> jsval \<Rightarrow> string \<Rightarrow> state \<Rightarrow> ((error + string) \<times> TempFileManager) \<times> state" where
  "createTempFile w this base64Data prefix s =
     (case Buffer_from base64Data of
        Inl e \<Rightarrow> ((Inl e, this), s)
      | Inr buffer \<Rightarrow>
          (let fileName = prefix @ ''_'' @ nat_digits (Date_now w (trace s)) @ ''_''
                            @ Math_random_suffix w (trace s) @ ''.png'';
               tempFilePath = path_join w (UPLOADS_DIR w) fileName
           in case io_writeFile w tempFilePath buffer s of
                (Inl e, s') \<Rightarrow> ((Inl e, this), s')
              | (Inr _, s') \<Rightarrow> ((Inr tempFilePath, this\<lparr>tempFiles := tempFiles this @ [tempFilePath]\<rparr>), s')))"

text \<open>
  \<open>cleanup\<close>: one callback per tracked file, each with its own \<open>try\<close>/\<open>catch\<close>; the
  callbacks are taken in the order of the list. The function has no way to throw.
\<close>

fun cleanup_files :: "world \<Rightarrow> string list \<Rightarrow> state \<Rightarrow> state" where
  "cleanup_files w [] s = s"
| "cleanup_files w (filePath # rest) s =
     cleanup_files w rest
       (if filePath \<in> disk s
        then snd (catchE (io_unlink w filePath) (\<lambda>error. returnE ()) s)
        else s)"

definition cleanup :: "world \<Rightarrow> TempFileManager \<Rightarrow> state \<Rightarrow> TempFileManager \<times> state" where
  "cleanup w this s = (this\<lparr>tempFiles := []\<rparr>, cleanup_files w (tempFiles this) s)"

subsection \<open>The provider requests\<close>

definition images_url :: string where
  "images_url = ''https://api.openai.com/v1/images/generations''"

text \<open>The \<open>catch\<close> block of \<open>makeGenerationRequest\<close>: the error it throws for the one it caught.\<close>

definition generation_error :: "error \<Rightarrow> error" where
  "generation_error error =
     (case error_response error of
        Some r \<Rightarrow>
          (if res_status r = 401 then Error ''Invalid OpenAI API key''
           else if res_status r = 403 then Error ''OpenAI API access forbidden - check your subscription''
           else if res_status r = 429 then Error ''OpenAI API rate limit exceeded''
           else if res_status r = 400
             then Error (''Invalid request: ''
                    @ ToString (js_or (opt_member (opt_member (res_data r) ''error'') ''message'') (JStr ''Bad request'')))
           else if res_status r = 500 then Error ''OpenAI API server error''
           else Error (''OpenAI API error ('' @ nat_digits (res_status r) @ ''): ''
                  @ ToString (js_or (opt_member (opt_member (res_data r) ''error'') ''message'')
                                (JSON_stringify (res_data r)))))
      | None \<Rightarrow>
          if error_request error
          then Error ''No response received from OpenAI API - check your internet connection''
          else Error (''Request setup error: '' @ message error))"

text \<open>The \<open>requestBody\<close> of \<open>makeGenerationRequest\<close>, for the trimmed prompt.\<close>

definition dalle3_requestBody :: "string \<Rightarrow> jsval" where
  "dalle3_requestBody trimmed =
     JObj [(''model'', JStr ''dall-e-3''), (''prompt'', JStr trimmed), (''quality'', JStr ''hd''),
           (''size'', JStr ''1024x1024''), (''response_format'', JStr ''b64_json'')]"

definition makeGenerationRequest :: "world \<Rightarrow> jsval \<Rightarrow> http_response io" where
  "makeGenerationRequest w prompt =
     (case js_trim prompt of
        Inl e \<Rightarrow> throwE e
      | Inr trimmed \<Rightarrow>
          (let requestBody = dalle3_requestBody trimmed
           in catchE (io_axios_post w images_url requestBody)
                (\<lambda>error. throwE (generation_error error))))"

text \<open>The \<open>requestBody\<close> of \<open>makeDalle2GenerationRequest\<close>, for the trimmed prompt.\<close>

definition dalle2_requestBody :: "string \<Rightarrow> jsval" where
  "dalle2_requestBody trimmed =
     JObj [(''model'', JStr ''dall-e-2''), (''prompt'', JStr (substring0 1000 trimmed)),
           (''size'', JStr ''1024x1024''), (''response_format'', JStr ''b64_json'')]"

definition makeDalle2GenerationRequest :: "world \<Rightarrow> jsval \<Rightarrow> http_response io" where
  "makeDalle2GenerationRequest w prompt =
     (case js_trim prompt of
        Inl e \<Rightarrow> throwE e
      | Inr trimmed \<Rightarrow>
          (let requestBody = dalle2_requestBody trimmed
           in catchE (io_axios_post w images_url requestBody) (\<lambda>error. throwE error)))"

subsection \<open>extractImageData and saveImageFile\<close>

definition extractImageData :: "world \<Rightarrow> http_response \<Rightarrow> bool \<Rightarrow> jsval io" where
  "extractImageData w response hasReferences =
     catchE
       (bindE (liftE (case get_member (res_data response) ''data'' of Inl e \<Rightarrow> Inl e | Inr d \<Rightarrow> get_first d))
          (\<lambda>imageResult.
             if \<not> truthy imageResult then throwE (Error ''No image data in API response'')
             else bindE (liftE (get_member imageResult ''b64_json''))
               (\<lambda>b64_json.
                  if truthy b64_json then returnE b64_json
                  else bindE (liftE (get_member imageResult ''url''))
                    (\<lambda>url.
                       if truthy url
                       then bindE (io_axios_get w url) (\<lambda>bytes. returnE (JStr (base64_encode bytes)))
                       else throwE (Error ''No valid image data found in API response'')))))
       (\<lambda>error. throwE (Error ''Failed to extract image data from API response''))"

definition saveImageFile :: "world \<Rightarrow> jsval \<Rightarrow> jsval \<Rightarrow> string io" where
  "saveImageFile w ideaId imageData s =
     (let fileName = ''painting_'' @ ToString ideaId @ ''_'' @ nat_digits (Date_now w (trace s)) @ ''.png'';
          filePath = path_join w (UPLOADS_DIR w) fileName
      in case Buffer_from imageData of
           Inl e \<Rightarrow> (Inl e, s)
         | Inr buffer \<Rightarrow> bindE (io_writeFile w filePath buffer) (\<lambda>_. returnE fileName) s)"

subsection \<open>generateImage\<close>

definition models :: "string list" where
  "models = [''dall-e-3'', ''dall-e-2'']"

text \<open>The body of the \<open>try\<close> inside the loop: the request of one tier.\<close>

definition request_tier :: "world \<Rightarrow> bool \<Rightarrow> jsval \<Rightarrow> string \<Rightarrow> http_response io" where
  "request_tier w hasReferences prompt model =
     (if hasReferences
      then (let enhancedPrompt = JStr (ToString prompt @ '' (inspired by provided reference images)'')
            in if model = ''dall-e-3'' then makeGenerationRequest w enhancedPrompt
               else makeDalle2GenerationRequest w enhancedPrompt)
      else if model = ''dall-e-3'' then makeGenerationRequest w prompt
      else makeDalle2GenerationRequest w prompt)"

text \<open>The test of the \<open>catch\<close> inside the loop.\<close>

definition is_client_error :: "error \<Rightarrow> bool" where
  "is_client_error error =
     (str_includes (message error) ''Invalid OpenAI API key''
      \<or> str_includes (message error) ''access forbidden''
      \<or> str_includes (message error) ''Invalid request'')"

text \<open>
  The loop \<open>for (const model of models)\<close>, with the variables \<open>response\<close> and
  \<open>lastError\<close> it assigns: it returns both when it ends, by \<open>break\<close> or at the end of the list.
\<close>

fun fallback_loop ::
  "world \<Rightarrow> bool \<Rightarrow> jsval \<Rightarrow> string list \<Rightarrow> error option \<Rightarrow> (http_response option \<times> error option) io" where
  "fallback_loop w hasReferences prompt [] lastError s = (Inr (None, lastError), s)"
| "fallback_loop w hasReferences prompt (model # rest) lastError s =
     (case request_tier w hasReferences prompt model s of
        (Inr response, s') \<Rightarrow> (Inr (Some response, lastError), s')
      | (Inl error, s') \<Rightarrow>
          if is_client_error error then (Inl error, s')
          else fallback_loop w hasReferences prompt rest (Some error) s')"

text \<open>\<open>if (!response) throw lastError || new Error(...)\<close>\<close>

definition require_response :: "http_response option \<times> error option \<Rightarrow> http_response io" where
  "require_response r =
     (case r of
        (Some response, _) \<Rightarrow> returnE response
      | (None, Some lastError) \<Rightarrow> throwE lastError
      | (None, None) \<Rightarrow> throwE (Error ''All image generation models failed''))"

text \<open>\<open>references.map(ref => ref.id)\<close>\<close>

fun reference_ids :: "jsval list \<Rightarrow> error + jsval list" where
  "reference_ids [] = Inr []"
| "reference_ids (ref # refs) =
     (case get_member ref ''id'' of
        Inl e \<Rightarrow> Inl e
      | Inr i \<Rightarrow> (case reference_ids refs of Inl e \<Rightarrow> Inl e | Inr ids \<Rightarrow> Inr (i # ids)))"

text \<open>
  \<open>referenceIds\<close> keeps the ids that are not \<open>null\<close> or \<open>undefined\<close>;
  \<open>usedReferenceIdsJSON\<close> is their JSON array, or \<open>null\<close> when there is none.
\<close>

definition usedReferenceIdsJSON :: "jsval list \<Rightarrow> jsval" where
  "usedReferenceIdsJSON ids =
     (let referenceIds = filter (\<lambda>i. i \<noteq> JNull \<and> i \<noteq> JUndefined) ids
      in if length referenceIds > 0 then JSON_stringify (JArr referenceIds) else JNull)"

text \<open>The statements after the loop, from the extraction to the \<open>return\<close>.\<close>

definition complete_image :: "world \<Rightarrow> jsval \<Rightarrow> jsval list \<Rightarrow> http_response \<Rightarrow> jsval io" where
  "complete_image w ideaId references response =
     bindE (extractImageData w response (references \<noteq> [])) (\<lambda>imageData.
     bindE (saveImageFile w ideaId imageData) (\<lambda>fileName.
     bindE (liftE (reference_ids references)) (\<lambda>ids.
     bindE (updatePaintingStatus w ideaId (JStr ''completed'')
              [(''image_url'', JStr (''uploads/'' @ fileName)),
               (''image_data'', JStr (''data:image/png;base64,'' @ ToString imageData)),
               (''used_reference_ids'', usedReferenceIdsJSON ids)])
       (\<lambda>_. returnE (JObj [(''ideaId'', ideaId), (''imageUrl'', JStr (''uploads/'' @ fileName)),
                            (''status'', JStr ''completed'')])))))"

text \<open>The loop and the test after it: the response that the rest of the call uses.\<close>

definition generate_with_fallback :: "world \<Rightarrow> bool \<Rightarrow> jsval \<Rightarrow> http_response io" where
  "generate_with_fallback w hasReferences prompt =
     bindE (fallback_loop w hasReferences prompt models None) require_response"

text \<open>The \<open>try\<close> block of \<open>generateImage\<close>. \<open>references\<close> is the array given, \<open>[]\<close> by default.\<close>

definition generateImage_body :: "world \<Rightarrow> jsval \<Rightarrow> jsval \<Rightarrow> jsval list \<Rightarrow> jsval io" where
  "generateImage_body w ideaId prompt references =
     bindE (updatePaintingStatus w ideaId (JStr ''processing'') []) (\<lambda>_.
     bindE (generate_with_fallback w (references \<noteq> []) prompt) (\<lambda>response.
       complete_image w ideaId references response))"

text \<open>The \<open>catch\<close> block of \<open>generateImage\<close>.\<close>

definition record_failure :: "world \<Rightarrow> jsval \<Rightarrow> error \<Rightarrow> jsval io" where
  "record_failure w ideaId error =
     (let errorMsg = (if message error \<noteq> [] then message error else ''Unknown error'')
      in bindE (catchE (updatePaintingStatus w ideaId (JStr ''failed'')
                          [(''error_message'', JStr (substring0 255 errorMsg))])
                  (\<lambda>dbError. returnE ()))
           (\<lambda>_. throwE error))"

text \<open>
  The statement \<open>try { ... } catch (error) { ... } finally { cleanup }\<close> for a given
  manager: the result of the call, the manager and the state it leaves.
\<close>

definition generateImage_try ::
  "world \<Rightarrow> TempFileManager \<Rightarrow> jsval \<Rightarrow> jsval \<Rightarrow> jsval list \<Rightarrow> state
     \<Rightarrow> ((error + jsval) \<times> TempFileManager) \<times> state" where
  "generateImage_try w tempFileManager ideaId prompt references s =
     (case catchE (generateImage_body w ideaId prompt references) (record_failure w ideaId) s of
        (outcome, s') \<Rightarrow>
          (case cleanup w tempFileManager s' of (tm', s'') \<Rightarrow> ((outcome, tm'), s'')))"

definition generateImage :: "world \<Rightarrow> jsval \<Rightarrow> jsval \<Rightarrow> jsval list \<Rightarrow> jsval io" where
  "generateImage w ideaId prompt references s =
     (case validateInputs w ideaId prompt s of
        (Inl e, s') \<Rightarrow> (Inl e, s')
      | (Inr _, s') \<Rightarrow>
          (case generateImage_try w new_TempFileManager ideaId prompt references s' of
             ((outcome, tm), s'') \<Rightarrow> (outcome, s'')))"

section \<open>services/openRouterService.js\<close>

definition OPENROUTER_URL :: string where
  "OPENROUTER_URL = ''https://openrouter.ai/api/v1/chat/completions''"

text \<open>The four \<open>replace\<close> calls of the repair, in their order.\<close>

definition cleaned_text :: "string \<Rightarrow> string" where
  "cleaned_text str =
     unescape_char (CHR 0x22)
       (unescape_char (CHR 0x27)
          (replace_char (CHR 0x0D) '' ''
             (replace_char (CHR 0x0A) '' '' str)))"

text \<open>
  \<open>JSON.parse\<close> converts its argument to a string first; of the values, only a
  string has a \<open>replace\<close> method.
\<close>

definition safeJSONParse :: "jsval \<Rightarrow> error + jsval" where
  "safeJSONParse str =
     (case JSON_parse (ToString str) of
        Inr v \<Rightarrow> Inr v
      | Inl e \<Rightarrow>
          (case str of
             JStr text \<Rightarrow>
               (let cleaned = cleaned_text text
                in case JSON_parse cleaned of Inr v \<Rightarrow> Inr v | Inl err \<Rightarrow> Inl err)
           | JUndefined \<Rightarrow> Inl (TypeError (''Cannot read properties of undefined (reading '' @ [CHR 0x27] @ ''replace'' @ [CHR 0x27] @ '')''))
           | JNull \<Rightarrow> Inl (TypeError (''Cannot read properties of null (reading '' @ [CHR 0x27] @ ''replace'' @ [CHR 0x27] @ '')''))
           | _ \<Rightarrow> Inl (TypeError ''str.replace is not a function'')))"

text \<open>\<open>lastIdeas.map(idea => idea.summary)\<close>\<close>

fun idea_summaries :: "jsval list \<Rightarrow> error + jsval list" where
  "idea_summaries [] = Inr []"
| "idea_summaries (idea # ideas) =
     (case get_member idea ''summary'' of
        Inl e \<Rightarrow> Inl e
      | Inr x \<Rightarrow> (case idea_summaries ideas of Inl e \<Rightarrow> Inl e | Inr xs \<Rightarrow> Inr (x # xs)))"

text \<open>
  \<open>lastIdeas\<close> is \<open>previousIdeas.slice(-3)\<close>; \<open>previousIdeasSummary\<close> joins the
  summaries of these ideas (\<open>null\<close> and \<open>undefined\<close> as the empty string), and is
  empty when there is no previous idea.
\<close>

definition previous_ideas_summary :: "jsval list \<Rightarrow> error + string" where
  "previous_ideas_summary previousIdeas =
     (let lastIdeas = drop (length previousIdeas - 3) previousIdeas
      in if length lastIdeas > 0
         then (case idea_summaries lastIdeas of
                 Inl e \<Rightarrow> Inl e
               | Inr summaries \<Rightarrow>
                   Inr (''Previous painting ideas: ''
                        @ join ''; '' (map (\<lambda>x. if x = JNull \<or> x = JUndefined then [] else ToString x) summaries)))
         else Inr [])"

text \<open>The body of the chat-completion request.\<close>

definition chat_request :: "jsval \<Rightarrow> jsval \<Rightarrow> string \<Rightarrow> jsval" where
  "chat_request titleText instructions previousIdeasSummary =
     JObj
      [(''model'', JStr ''openai/gpt-3.5-turbo''),
       (''messages'', JArr
          [JObj [(''role'', JStr ''system''),
                 (''content'', JStr (''You are a creative painting designer. Generate unique painting concepts that haven''
                                     @ [CHR 0x27] @ ''t been suggested before.''))],
           JObj [(''role'', JStr ''user''),
                 (''content'', JStr
                    (''Create a painting concept for the title: '' @ [CHR 0x22] @ ToString titleText @ [CHR 0x22] @ ''.''
                     @ [CHR 0x0A] @ ''          ''
                     @ (if truthy instructions then ''Custom instructions: '' @ ToString instructions else [])
                     @ [CHR 0x0A] @ ''          ''
                     @ previousIdeasSummary
                     @ [CHR 0x0A] @ ''          ''
                     @ ''Please generate a completely new and different painting idea that hasn''
                     @ [CHR 0x27] @ ''t been suggested yet.''))]]),
       (''tools'', JArr
          [JObj [(''type'', JStr ''function''),
                 (''function'', JObj
                    [(''name'', JStr ''savePaintingIdea''),
                     (''description'', JStr ''Save a painting idea''),
                     (''parameters'', JObj
                        [(''type'', JStr ''object''),
                         (''properties'', JObj
                            [(''summary'', JObj
                                [(''type'', JStr ''string''),
                                 (''description'', JStr ''A short summary of the painting idea (30-50 words)'')]),
                             (''fullPrompt'', JObj
                                [(''type'', JStr ''string''),
                                 (''description'', JStr ''The full prompt to generate this painting image (100-200 words with detailed visual instructions)'')])]),
                         (''required'', JArr [JStr ''summary'', JStr ''fullPrompt''])])])]]),
       (''tool_choice'', JObj [(''type'', JStr ''function''),
                               (''function'', JObj [(''name'', JStr ''savePaintingIdea'')])])]"

text \<open>\<open>const [result] = value\<close>: the first element of an iterable.\<close>

definition destructure_first :: "jsval \<Rightarrow> error + jsval" where
  "destructure_first v =
     (case v of
        JArr xs \<Rightarrow> Inr (case xs of [] \<Rightarrow> JUndefined | x # _ \<Rightarrow> x)
      | JStr t \<Rightarrow> Inr (case t of [] \<Rightarrow> JUndefined | c # _ \<Rightarrow> JStr [c])
      | _ \<Rightarrow> Inl (TypeError (ToString v @ '' is not iterable'')))"

text \<open>The statements under \<open>// Save to database\<close>, to the \<open>return\<close>.\<close>

definition save_idea :: "world \<Rightarrow> jsval \<Rightarrow> jsval \<Rightarrow> jsval \<Rightarrow> jsval io" where
  "save_idea w titleId summary fullPrompt =
     (let params = [titleId, summary, fullPrompt]
      in if JUndefined \<in> set params then throwE (Error ''Invalid query parameter detected'')
         else bindE (io_pool_execute w ''INSERT INTO ideas (title_id, summary, full_prompt) VALUES (?, ?, ?)'' params)
           (\<lambda>rows.
              bindE (liftE (destructure_first rows)) (\<lambda>result.
              bindE (liftE (get_member result ''insertId'')) (\<lambda>insertId.
                returnE (JObj [(''id'', insertId), (''titleId'', titleId),
                               (''summary'', summary), (''fullPrompt'', fullPrompt)])))))"

text \<open>\<open>response?.data?.choices?.[0]?.message?.tool_calls?.[0]\<close>, then \<open>toolCall?.function?.arguments\<close>.\<close>

definition tool_call_arguments :: "http_response \<Rightarrow> jsval" where
  "tool_call_arguments response =
     (let toolCall = opt_first (opt_member (opt_member (opt_first
                        (opt_member (res_data response) ''choices'')) ''message'') ''tool_calls'')
      in opt_member (opt_member toolCall ''function'') ''arguments'')"

text \<open>
  \<open>generateIdeas\<close>; \<open>previousIdeas\<close> is the array given, \<open>[]\<close> by default. The outer
  \<open>catch\<close> logs the error and throws it again.
\<close>

definition generateIdeas :: "world \<Rightarrow> jsval \<Rightarrow> jsval \<Rightarrow> jsval \<Rightarrow> jsval list \<Rightarrow> jsval io" where
  "generateIdeas w titleId titleText instructions previousIdeas =
     (if \<not> truthy titleId then throwE (Error ''Title ID is required for idea generation'')
      else if \<not> truthy titleText then throwE (Error ''Title text is required for idea generation'')
      else if \<not> truthy (OPENROUTER_API_KEY w)
        then throwE (Error ''OpenRouter API key is missing. Please check your .env file.'')
      else
        bindE (liftE (previous_ideas_summary previousIdeas)) (\<lambda>previousIdeasSummary.
        bindE (io_axios_post w OPENROUTER_URL (chat_request titleText instructions previousIdeasSummary))
          (\<lambda>response.
            (let arguments = tool_call_arguments response
             in if \<not> truthy arguments
                then throwE (Error ''No function arguments returned from OpenRouter.'')
                else bindE (liftE (safeJSONParse arguments)) (\<lambda>ideaData.
                     bindE (liftE (get_member ideaData ''summary'')) (\<lambda>summary.
                       if \<not> truthy summary then throwE (Error ''Incomplete idea data received from AI'')
                       else bindE (liftE (get_member ideaData ''fullPrompt'')) (\<lambda>fullPrompt.
                         if \<not> truthy fullPrompt
                         then throwE (Error ''Incomplete idea data received from AI'')
                         else save_idea w titleId summary fullPrompt)))))))"

section \<open>Example collaborators\<close>

text \<open>
  Concrete collaborators on which the calls are run: a provider that answers every
  image request with an inline base64 payload and every chat request with a tool call,
  a database that assigns the identifier 7, a file system that never fails, a clock
  that advances with every request.
\<close>

definition quoted :: "string \<Rightarrow> string" where
  "quoted t = CHR 0x22 # t @ [CHR 0x22]"

definition inline_image :: http_response where
  "inline_image = Response 200 (JObj [(''data'', JArr [JObj [(''b64_json'', JStr ''aGk='')]])])"

definition url_image :: http_response where
  "url_image = Response 200 (JObj [(''data'', JArr [JObj [(''url'', JStr ''https://img.example/1.png'')]])])"

definition idea_arguments :: string where
  "idea_arguments =
     ''{'' @ quoted ''summary'' @ '':'' @ quoted ''A red barn'' @ '',''
       @ quoted ''fullPrompt'' @ '':'' @ quoted ''Paint a red barn at sunset'' @ ''}''"

definition tool_call_response :: "jsval \<Rightarrow> http_response" where
  "tool_call_response arguments =
     Response 200
       (JObj [(''choices'', JArr [JObj [(''message'', JObj [(''tool_calls'', JArr
          [JObj [(''function'', JObj [(''name'', JStr ''savePaintingIdea''),
                                      (''arguments'', arguments)])]])])]])])"

definition demo_world :: world where
  "demo_world =
     \<lparr>OPENAI_API_KEY = JStr ''sk-demo'', OPENROUTER_API_KEY = JStr ''or-demo'',
      UPLOADS_DIR = ''/srv/uploads'', path_join = (\<lambda>d f. d @ ''/'' @ f),
      Date_now = (\<lambda>h. 1700 + length h), Math_random_suffix = (\<lambda>h. ''k3x9q''),
      pool_execute = (\<lambda>h sql ps. Inr (JArr [JObj [(''insertId'', JNum 7)], JUndefined])),
      axios_post = (\<lambda>h url body.
         if url = OPENROUTER_URL then Inr (tool_call_response (JStr idea_arguments)) else Inr inline_image),
      axios_get = (\<lambda>h url. Inr [104, 105]),
      fs_writeFile = (\<lambda>h p b. None), fs_unlink = (\<lambda>h p. None)\<rparr>"

definition initial_state :: state where
  "initial_state = \<lparr>apiKeyValidated = False, disk = {}, trace = []\<rparr>"

text \<open>Three references: one with a number as id, one with a string, one without id.\<close>

definition three_references :: "jsval list" where
  "three_references =
     [JObj [(''id'', JNum 3), (''image_data'', JStr ''data:image/png;base64,eA=='')],
      JObj [(''id'', JStr ''r-7'')],
      JObj [(''image_data'', JStr ''data:image/png;base64,eQ=='')]]"

text \<open>The primary tier is refused with the given status; the secondary tier answers.\<close>

definition primary_refused_world :: "nat \<Rightarrow> world" where
  "primary_refused_world code =
     demo_world\<lparr>axios_post := (\<lambda>h url body.
        if opt_member body ''model'' = JStr ''dall-e-3''
        then Inl (AxiosError ''Request failed'' (Some (Response code (JObj [(''error'', JObj [(''message'', JStr ''refused'')])]))) True)
        else Inr inline_image)\<rparr>"

text \<open>The primary tier answers with an empty list of results; the secondary tier would answer well.\<close>

definition malformed_primary_world :: world where
  "malformed_primary_world =
     demo_world\<lparr>axios_post := (\<lambda>h url body.
        if opt_member body ''model'' = JStr ''dall-e-3''
        then Inr (Response 200 (JObj [(''data'', JArr [])]))
        else Inr inline_image)\<rparr>"

text \<open>The provider answers with the address of the image.\<close>

definition url_only_world :: world where
  "url_only_world = demo_world\<lparr>axios_post := (\<lambda>h url body. Inr url_image)\<rparr>"

text \<open>The database rejects every statement, with the given message.\<close>

definition db_down_world :: "string \<Rightarrow> world" where
  "db_down_world msg = demo_world\<lparr>pool_execute := (\<lambda>h sql ps. Inl (ExternalError msg))\<rparr>"

text \<open>No API key in the environment.\<close>

definition no_key_world :: world where
  "no_key_world = demo_world\<lparr>OPENAI_API_KEY := JUndefined\<rparr>"

text \<open>One temporary file cannot be deleted.\<close>

definition stuck_file_world :: world where
  "stuck_file_world =
     demo_world\<lparr>fs_unlink := (\<lambda>h p.
        if p = ''/srv/uploads/ref_0.png'' then Some (ExternalError ''EBUSY: resource busy or locked'') else None)\<rparr>"

definition cluttered_state :: state where
  "cluttered_state =
     \<lparr>apiKeyValidated = False,
      disk = {''/srv/uploads/ref_0.png'', ''/srv/uploads/ref_1.png''},
      trace = []\<rparr>"

text \<open>
  Two argument texts with a line feed inside the summary: \<open>{"summary":"a\<newline>b","fullPrompt":"c"}\<close>
  and the same with the word \<open>b\<close> in escaped quotes.
\<close>

definition newline_arguments :: string where
  "newline_arguments =
     ''{'' @ quoted ''summary'' @ '':'' @ quoted (''a'' @ [CHR 0x0A] @ ''b'') @ '',''
       @ quoted ''fullPrompt'' @ '':'' @ quoted ''c'' @ ''}''"

definition quoted_newline_arguments :: string where
  "quoted_newline_arguments =
     ''{'' @ quoted ''summary'' @ '':''
       @ quoted (''a'' @ [CHR 0x0A] @ [CHR 0x5C, CHR 0x22] @ ''b'' @ [CHR 0x5C, CHR 0x22]) @ '',''
       @ quoted ''fullPrompt'' @ '':'' @ quoted ''c'' @ ''}''"

section \<open>Basic facts\<close>

lemmas io_defs = returnE_def throwE_def liftE_def bindE_def catchE_def

text \<open>The definitions that a run on concrete collaborators unfolds.\<close>

lemmas run_defs =
  generateImage_def validateInputs_def js_trim_def trim_def is_js_space_def
  generateImage_try_def generateImage_body_def updatePaintingStatus_def obj_spread_def io_defs io_pool_execute_def
  generate_with_fallback_def models_def request_tier_def makeGenerationRequest_def makeDalle2GenerationRequest_def
  dalle3_requestBody_def dalle2_requestBody_def io_axios_post_def io_axios_get_def
  generation_error_def is_client_error_def starts_with_def substring0_def
  require_response_def complete_image_def extractImageData_def get_member_def get_first_def opt_member_def obj_get_def
  saveImageFile_def Buffer_from_def io_writeFile_def io_unlink_def int_to_string_def nat_digits.simps images_url_def
  usedReferenceIdsJSON_def record_failure_def js_or_def
  cleanup_def new_TempFileManager_def Let_def
  demo_world_def initial_state_def inline_image_def url_image_def OPENROUTER_URL_def

text \<open>The definitions that the parse of a concrete text unfolds.\<close>

lemmas json_defs = JSON_parse_def idle_char_def is_digit_def word_token_def number_token_def
  begin_value_def begin_key_def quoted_def replace_char_def cleaned_text_def

lemma bindE_Inr:
  "bindE m f s = (Inr v, s') \<Longrightarrow> \<exists>x s1. m s = (Inr x, s1) \<and> f x s1 = (Inr v, s')"
  by (auto simp add: bindE_def split: sum.splits prod.splits)

lemma truthy_not_undefined: "truthy v \<Longrightarrow> v \<noteq> JUndefined"
  by auto

lemma get_member_truthy: "truthy v \<Longrightarrow> get_member v k = Inr (opt_member v k)"
  by (cases v) (auto simp add: get_member_def opt_member_def)

subsection \<open>The status updates\<close>

lemma updatePaintingStatus_processing:
  "ideaId \<noteq> JUndefined \<Longrightarrow>
   updatePaintingStatus w ideaId (JStr ''processing'') [] s =
     ((case pool_execute w (trace s) ''UPDATE paintings SET status = ? WHERE idea_id = ?''
               [JStr ''processing'', ideaId] of
         Inl e \<Rightarrow> Inl e | Inr r \<Rightarrow> Inr ()),
      s\<lparr>trace := trace s @ [DbExecute ''UPDATE paintings SET status = ? WHERE idea_id = ?''
               [JStr ''processing'', ideaId]]\<rparr>)"
  by (auto simp add: updatePaintingStatus_def obj_spread_def io_defs io_pool_execute_def Let_def split: sum.splits)

lemma updatePaintingStatus_failed:
  "ideaId \<noteq> JUndefined \<Longrightarrow>
   updatePaintingStatus w ideaId (JStr ''failed'') [(''error_message'', JStr m)] s =
     ((case pool_execute w (trace s) ''UPDATE paintings SET status = ?, error_message = ? WHERE idea_id = ?''
               [JStr ''failed'', JStr m, ideaId] of
         Inl e \<Rightarrow> Inl e | Inr r \<Rightarrow> Inr ()),
      s\<lparr>trace := trace s @ [DbExecute ''UPDATE paintings SET status = ?, error_message = ? WHERE idea_id = ?''
               [JStr ''failed'', JStr m, ideaId]]\<rparr>)"
  by (auto simp add: updatePaintingStatus_def obj_spread_def io_defs io_pool_execute_def Let_def split: sum.splits)

lemma updatePaintingStatus_completed:
  "ideaId \<noteq> JUndefined \<Longrightarrow> u \<noteq> JUndefined \<Longrightarrow>
   updatePaintingStatus w ideaId (JStr ''completed'')
       [(''image_url'', JStr a), (''image_data'', JStr b), (''used_reference_ids'', u)] s =
     ((case pool_execute w (trace s)
               ''UPDATE paintings SET status = ?, image_url = ?, image_data = ?, used_reference_ids = ? WHERE idea_id = ?''
               [JStr ''completed'', JStr a, JStr b, u, ideaId] of
         Inl e \<Rightarrow> Inl e | Inr r \<Rightarrow> Inr ()),
      s\<lparr>trace := trace s @ [DbExecute
               ''UPDATE paintings SET status = ?, image_url = ?, image_data = ?, used_reference_ids = ? WHERE idea_id = ?''
               [JStr ''completed'', JStr a, JStr b, u, ideaId]]\<rparr>)"
  by (auto simp add: updatePaintingStatus_def obj_spread_def io_defs io_pool_execute_def Let_def split: sum.splits)

text \<open>The \<open>catch\<close> block always ends by throwing the error it caught, after one statement.\<close>

lemma record_failure_eq:
  "ideaId \<noteq> JUndefined \<Longrightarrow>
   record_failure w ideaId e s =
     (Inl e, s\<lparr>trace := trace s @ [DbExecute ''UPDATE paintings SET status = ?, error_message = ? WHERE idea_id = ?''
        [JStr ''failed'', JStr (take 255 (if message e = [] then ''Unknown error'' else message e)), ideaId]]\<rparr>)"
  by (simp add: record_failure_def updatePaintingStatus_failed Let_def io_defs substring0_def split: sum.splits)

subsection \<open>Validation and the shape of a call\<close>

lemma validateInputs_ok:
  "validateInputs w ideaId prompt s = (Inr u, s0) \<Longrightarrow>
     truthy ideaId \<and> (\<exists>p. prompt = JStr p \<and> trim p \<noteq> []) \<and> s0 = s\<lparr>apiKeyValidated := True\<rparr>
     \<and> (apiKeyValidated s \<or> truthy (OPENAI_API_KEY w))"
  by (cases prompt) (auto simp add: validateInputs_def js_trim_def split: if_splits sum.splits bool.splits)

lemma cleanup_new: "cleanup w new_TempFileManager s = (new_TempFileManager, s)"
  by (simp add: cleanup_def new_TempFileManager_def)

lemma generateImage_valid:
  "validateInputs w ideaId prompt s = (Inr u, s0) \<Longrightarrow>
   generateImage w ideaId prompt references s =
     catchE (generateImage_body w ideaId prompt references) (record_failure w ideaId) s0"
  by (simp add: generateImage_def generateImage_try_def cleanup_new split: prod.splits)

lemma generateImage_Inr_valid:
  assumes "generateImage w ideaId prompt references s = (Inr result, s')"
  shows "\<exists>u s0. validateInputs w ideaId prompt s = (Inr u, s0)"
  using assms by (auto simp add: generateImage_def split: prod.splits sum.splits)

lemma catchE_Inr:
  "catchE m (record_failure w ideaId) s = (Inr v, s') \<Longrightarrow> ideaId \<noteq> JUndefined \<Longrightarrow> m s = (Inr v, s')"
  by (auto simp add: catchE_def record_failure_eq split: prod.splits sum.splits)

lemma generateImage_body_processing:
  assumes "ideaId \<noteq> JUndefined"
      and "pool_execute w (trace s0) ''UPDATE paintings SET status = ? WHERE idea_id = ?''
             [JStr ''processing'', ideaId] = Inr r0"
  shows "generateImage_body w ideaId prompt references s0 =
           bindE (generate_with_fallback w (references \<noteq> []) prompt) (complete_image w ideaId references)
             (s0\<lparr>trace := trace s0 @ [DbExecute ''UPDATE paintings SET status = ? WHERE idea_id = ?''
                [JStr ''processing'', ideaId]]\<rparr>)"
  using assms by (simp add: generateImage_body_def bindE_def updatePaintingStatus_processing)

lemma generateImage_body_Inr:
  assumes "generateImage_body w ideaId prompt references s0 = (Inr v, s')" and "ideaId \<noteq> JUndefined"
  shows "\<exists>r0. pool_execute w (trace s0) ''UPDATE paintings SET status = ? WHERE idea_id = ?''
                 [JStr ''processing'', ideaId] = Inr r0"
  using assms
  by (auto simp add: generateImage_body_def bindE_def updatePaintingStatus_processing split: sum.splits)

subsection \<open>The requests of the two tiers\<close>

lemma makeGenerationRequest_eq:
  "makeGenerationRequest w (JStr p) s =
     ((case axios_post w (trace s) images_url (dalle3_requestBody (trim p)) of
         Inl e \<Rightarrow> Inl (generation_error e) | Inr r \<Rightarrow> Inr r),
      s\<lparr>trace := trace s @ [HttpPost images_url (dalle3_requestBody (trim p))]\<rparr>)"
  by (simp add: makeGenerationRequest_def js_trim_def io_defs io_axios_post_def split: sum.splits)

lemma makeDalle2GenerationRequest_eq:
  "makeDalle2GenerationRequest w (JStr p) s =
     (axios_post w (trace s) images_url (dalle2_requestBody (trim p)),
      s\<lparr>trace := trace s @ [HttpPost images_url (dalle2_requestBody (trim p))]\<rparr>)"
  by (simp add: makeDalle2GenerationRequest_def js_trim_def io_defs io_axios_post_def split: sum.splits)

lemma request_tier_eq:
  "request_tier w hasReferences (JStr p) model =
     (if model = ''dall-e-3''
      then makeGenerationRequest w (JStr (if hasReferences then p @ '' (inspired by provided reference images)'' else p))
      else makeDalle2GenerationRequest w (JStr (if hasReferences then p @ '' (inspired by provided reference images)'' else p)))"
  by (simp add: request_tier_def)

text \<open>The whole ladder, for a prompt that is a string: at most two requests.\<close>

lemma generate_with_fallback_eq:
  assumes "tp = trim (if hasReferences then p @ '' (inspired by provided reference images)'' else p)"
      and "s3 = s\<lparr>trace := trace s @ [HttpPost images_url (dalle3_requestBody tp)]\<rparr>"
      and "s2 = s3\<lparr>trace := trace s3 @ [HttpPost images_url (dalle2_requestBody tp)]\<rparr>"
  shows "generate_with_fallback w hasReferences (JStr p) s =
     (case axios_post w (trace s) images_url (dalle3_requestBody tp) of
        Inr r \<Rightarrow> (Inr r, s3)
      | Inl e \<Rightarrow>
          if is_client_error (generation_error e) then (Inl (generation_error e), s3)
          else (axios_post w (trace s3) images_url (dalle2_requestBody tp), s2))"
  using assms
  by (auto simp add: generate_with_fallback_def models_def request_tier_eq makeGenerationRequest_eq
      makeDalle2GenerationRequest_eq bindE_def require_response_def returnE_def throwE_def
      split: sum.splits)

lemma generation_error_message: "message (generation_error e) \<noteq> []"
  by (auto simp add: generation_error_def split: option.splits)

lemma client_error_statuses:
  "error_response e = Some r \<Longrightarrow> res_status r = 401 \<or> res_status r = 403 \<or> res_status r = 400
     \<Longrightarrow> is_client_error (generation_error e)"
  by (auto simp add: generation_error_def is_client_error_def starts_with_def)

lemma tier_local_statuses:
  "error_response e = Some r \<Longrightarrow> res_status r = 429 \<or> res_status r = 500
     \<Longrightarrow> \<not> is_client_error (generation_error e)"
  by (auto simp add: generation_error_def is_client_error_def starts_with_def)

lemma tier_local_no_response:
  "error_response e = None \<Longrightarrow> error_request e \<Longrightarrow> \<not> is_client_error (generation_error e)"
  by (auto simp add: generation_error_def is_client_error_def starts_with_def)

text \<open>
  The test reads the message, and the message of a status without a case of its own
  carries the text of the provider: a 503 whose text holds one of the three markers
  counts as a client error.
\<close>

lemma other_status_with_marker_text:
  "is_client_error (generation_error
     (AxiosError ''Request failed with status code 503''
        (Some (Response 503 (JObj [(''error'', JObj [(''message'', JStr ''Invalid request rate'')])]))) True))"
  by (simp add: generation_error_def is_client_error_def starts_with_def opt_member_def get_member_def
      obj_get_def js_or_def nat_digits.simps)

subsection \<open>Extraction and completion\<close>

lemma extractImageData_error:
  "extractImageData w response h s = (Inl e, s') \<Longrightarrow>
     e = Error ''Failed to extract image data from API response''"
  by (auto simp add: extractImageData_def io_defs split: sum.splits prod.splits if_splits)

lemma extract_item:
  assumes "get_member (res_data response) ''data'' = Inr d" "get_first d = Inr item" "truthy item"
  shows "extractImageData w response h s =
     (if truthy (opt_member item ''b64_json'') then (Inr (opt_member item ''b64_json''), s)
      else if truthy (opt_member item ''url'') then
        (case axios_get w (trace s) (opt_member item ''url'') of
           Inr bytes \<Rightarrow> (Inr (JStr (base64_encode bytes)), s\<lparr>trace := trace s @ [HttpGet (opt_member item ''url'')]\<rparr>)
         | Inl e \<Rightarrow> (Inl (Error ''Failed to extract image data from API response''),
                      s\<lparr>trace := trace s @ [HttpGet (opt_member item ''url'')]\<rparr>))
      else (Inl (Error ''Failed to extract image data from API response''), s))"
  using assms
  by (auto simp add: extractImageData_def io_defs get_member_truthy io_axios_get_def
      split: sum.splits prod.splits if_splits)

lemma extract_inline:
  "extractImageData w (Response st (JObj [(''data'', JArr [JObj [(''b64_json'', JStr X)]])])) h s =
     (if X \<noteq> [] then (Inr (JStr X), s)
      else (Inl (Error ''Failed to extract image data from API response''), s))"
  by (simp add: extractImageData_def io_defs get_member_def get_first_def obj_get_def)

lemma Buffer_from_Inr: "Buffer_from v = Inr b \<Longrightarrow> b = v"
  by (auto simp add: Buffer_from_def split: jsval.splits if_splits)

text \<open>The ids read from the references are their \<open>id\<close> members, in order.\<close>

lemma reference_ids_Inr:
  "reference_ids refs = Inr ids \<Longrightarrow> ids = map (\<lambda>r. opt_member r ''id'') refs"
  by (induction refs arbitrary: ids) (auto simp add: opt_member_def split: sum.splits)

text \<open>The JSON array of numbers.\<close>

lemma serialize_numbers:
  "JSON_stringify (JArr (map JNum ns)) = JStr (''['' @ join '','' (map int_to_string ns) @ '']'')"
  by (simp add: JSON_stringify_def comp_def)

text \<open>A text with an escape above \<open>00FF\<close> parses; the code unit is read as \<open>?\<close>.\<close>

lemma wide_escape_parses:
  "JSON_parse ([CHR 0x22, CHR 0x5C] @ ''u2014'' @ [CHR 0x22]) = Inr (JStr ''?'')"
  by (simp add: json_defs hexval_def)

lemma usedReferenceIdsJSON_defined: "usedReferenceIdsJSON ids \<noteq> JUndefined"
  by (simp add: usedReferenceIdsJSON_def JSON_stringify_def Let_def)

lemma saveImageFile_success:
  "saveImageFile w ideaId imageData s1 = (Inr fileName, s2) \<Longrightarrow>
     fileName = ''painting_'' @ ToString ideaId @ ''_'' @ nat_digits (Date_now w (trace s1)) @ ''.png''
     \<and> s2 = s1\<lparr>disk := insert (path_join w (UPLOADS_DIR w) fileName) (disk s1),
               trace := trace s1 @ [FsWriteFile (path_join w (UPLOADS_DIR w) fileName) imageData]\<rparr>"
  by (auto simp add: saveImageFile_def Let_def io_defs io_writeFile_def
      split: sum.splits option.splits dest: Buffer_from_Inr)

lemma completed_update_success:
  assumes "bindE (updatePaintingStatus w ideaId (JStr ''completed'')
              [(''image_url'', JStr a), (''image_data'', JStr b), (''used_reference_ids'', usedReferenceIdsJSON ids)])
             (\<lambda>_. returnE res0) s2 = (Inr res, s')"
  shows "res = res0 \<and> s' = s2\<lparr>trace := trace s2 @ [DbExecute
               ''UPDATE paintings SET status = ?, image_url = ?, image_data = ?, used_reference_ids = ? WHERE idea_id = ?''
               [JStr ''completed'', JStr a, JStr b, usedReferenceIdsJSON ids, ideaId]]\<rparr>"
proof -
  have undef: "ideaId \<noteq> JUndefined"
  proof
    assume "ideaId = JUndefined"
    with assms show False
      by (simp add: bindE_def Let_def updatePaintingStatus_def throwE_def)
  qed
  from bindE_Inr[OF assms] obtain x s1 where
    u: "updatePaintingStatus w ideaId (JStr ''completed'')
              [(''image_url'', JStr a), (''image_data'', JStr b), (''used_reference_ids'', usedReferenceIdsJSON ids)] s2
          = (Inr x, s1)"
    and r: "returnE res0 s1 = (Inr res, s')" by blast
  from u have "s1 = s2\<lparr>trace := trace s2 @ [DbExecute
               ''UPDATE paintings SET status = ?, image_url = ?, image_data = ?, used_reference_ids = ? WHERE idea_id = ?''
               [JStr ''completed'', JStr a, JStr b, usedReferenceIdsJSON ids, ideaId]]\<rparr>"
    by (simp add: updatePaintingStatus_completed[OF undef usedReferenceIdsJSON_defined])
  with r show ?thesis by (simp add: returnE_def)
qed

text \<open>What a completed call has done after the ladder: one file, one statement.\<close>

lemma complete_image_success:
  assumes "complete_image w ideaId references response s = (Inr res, s')"
  shows "\<exists>imageData s1 ids.
           extractImageData w response (references \<noteq> []) s = (Inr imageData, s1)
         \<and> reference_ids references = Inr ids
         \<and> res = JObj [(''ideaId'', ideaId),
                (''imageUrl'', JStr (''uploads/painting_'' @ ToString ideaId @ ''_''
                                      @ nat_digits (Date_now w (trace s1)) @ ''.png'')),
                (''status'', JStr ''completed'')]
         \<and> trace s' = trace s1 @
              [FsWriteFile (path_join w (UPLOADS_DIR w) (''painting_'' @ ToString ideaId @ ''_''
                              @ nat_digits (Date_now w (trace s1)) @ ''.png'')) imageData,
               DbExecute ''UPDATE paintings SET status = ?, image_url = ?, image_data = ?, used_reference_ids = ? WHERE idea_id = ?''
                 [JStr ''completed'',
                  JStr (''uploads/painting_'' @ ToString ideaId @ ''_'' @ nat_digits (Date_now w (trace s1)) @ ''.png''),
                  JStr (''data:image/png;base64,'' @ ToString imageData),
                  usedReferenceIdsJSON ids, ideaId]]
         \<and> disk s' = insert (path_join w (UPLOADS_DIR w) (''painting_'' @ ToString ideaId @ ''_''
                                 @ nat_digits (Date_now w (trace s1)) @ ''.png'')) (disk s1)"
proof -
  from bindE_Inr[OF assms[unfolded complete_image_def]]
  obtain imageData s1 where ex: "extractImageData w response (references \<noteq> []) s = (Inr imageData, s1)"
    and r1: "bindE (saveImageFile w ideaId imageData) (\<lambda>fileName.
     bindE (liftE (reference_ids references)) (\<lambda>ids.
     bindE (updatePaintingStatus w ideaId (JStr ''completed'')
              [(''image_url'', JStr (''uploads/'' @ fileName)),
               (''image_data'', JStr (''data:image/png;base64,'' @ ToString imageData)),
               (''used_reference_ids'', usedReferenceIdsJSON ids)])
       (\<lambda>_. returnE (JObj [(''ideaId'', ideaId), (''imageUrl'', JStr (''uploads/'' @ fileName)),
                            (''status'', JStr ''completed'')])))) s1 = (Inr res, s')"
    by blast
  from bindE_Inr[OF r1] obtain fileName s2 where sv: "saveImageFile w ideaId imageData s1 = (Inr fileName, s2)"
    and r2: "bindE (liftE (reference_ids references)) (\<lambda>ids.
     bindE (updatePaintingStatus w ideaId (JStr ''completed'')
              [(''image_url'', JStr (''uploads/'' @ fileName)),
               (''image_data'', JStr (''data:image/png;base64,'' @ ToString imageData)),
               (''used_reference_ids'', usedReferenceIdsJSON ids)])
       (\<lambda>_. returnE (JObj [(''ideaId'', ideaId), (''imageUrl'', JStr (''uploads/'' @ fileName)),
                            (''status'', JStr ''completed'')]))) s2 = (Inr res, s')"
    by blast
  from bindE_Inr[OF r2] obtain ids s3 where ids0: "liftE (reference_ids references) s2 = (Inr ids, s3)"
    and r3: "bindE (updatePaintingStatus w ideaId (JStr ''completed'')
              [(''image_url'', JStr (''uploads/'' @ fileName)),
               (''image_data'', JStr (''data:image/png;base64,'' @ ToString imageData)),
               (''used_reference_ids'', usedReferenceIdsJSON ids)])
       (\<lambda>_. returnE (JObj [(''ideaId'', ideaId), (''imageUrl'', JStr (''uploads/'' @ fileName)),
                            (''status'', JStr ''completed'')])) s3 = (Inr res, s')"
    by blast
  from ids0 have ids: "reference_ids references = Inr ids" and s3: "s3 = s2"
    by (simp_all add: liftE_def)
  note fin = completed_update_success[OF r3]
  note sav = saveImageFile_success[OF sv]
  show ?thesis
    apply (rule exI[of _ imageData], rule exI[of _ s1], rule exI[of _ ids])
    using ex ids fin sav s3 by simp
qed

lemma complete_image_last:
  assumes "complete_image w ideaId references response s = (Inr res, s')"
  shows "\<exists>a b c. last (trace s') =
           DbExecute ''UPDATE paintings SET status = ?, image_url = ?, image_data = ?, used_reference_ids = ? WHERE idea_id = ?''
             [JStr ''completed'', JStr a, JStr b, c, ideaId]"
  using complete_image_success[OF assms] by auto

subsection \<open>The files of a manager\<close>

lemma unlink_step_trace:
  "trace (snd (catchE (io_unlink w f) (\<lambda>error. returnE ()) s)) = trace s @ [FsUnlink f]"
  by (simp add: catchE_def io_unlink_def returnE_def split: option.splits)

lemma unlink_step_disk:
  "disk (snd (catchE (io_unlink w f) (\<lambda>error. returnE ()) s)) =
     (if fs_unlink w (trace s) f = None then disk s - {f} else disk s)"
  by (simp add: catchE_def io_unlink_def returnE_def split: option.splits)

lemma cleanup_files_trace_mono: "set (trace s) \<subseteq> set (trace (cleanup_files w fs s))"
proof (induction fs arbitrary: s)
  case Nil
  then show ?case by simp
next
  case (Cons f fs)
  let ?s1 = "if f \<in> disk s then snd (catchE (io_unlink w f) (\<lambda>error. returnE ()) s) else s"
  have a: "set (trace s) \<subseteq> set (trace ?s1)"
    by (cases "f \<in> disk s") (auto simp add: unlink_step_trace)
  have "set (trace ?s1) \<subseteq> set (trace (cleanup_files w fs ?s1))"
    by (rule Cons.IH)
  with a have "set (trace s) \<subseteq> set (trace (cleanup_files w fs ?s1))"
    by (rule subset_trans)
  then show ?case by (simp only: cleanup_files.simps)
qed

lemma cleanup_files_disk_mono: "disk (cleanup_files w fs s) \<subseteq> disk s"
proof (induction fs arbitrary: s)
  case Nil
  then show ?case by simp
next
  case (Cons f fs)
  let ?s1 = "if f \<in> disk s then snd (catchE (io_unlink w f) (\<lambda>error. returnE ()) s) else s"
  have a: "disk ?s1 \<subseteq> disk s"
    by (cases "f \<in> disk s") (simp_all add: unlink_step_disk)
  have "disk (cleanup_files w fs ?s1) \<subseteq> disk ?s1"
    by (rule Cons.IH)
  from this a have "disk (cleanup_files w fs ?s1) \<subseteq> disk s"
    by (rule subset_trans)
  then show ?case by (simp only: cleanup_files.simps)
qed

lemma cleanup_files_attempts:
  "p \<in> set fs \<Longrightarrow> p \<in> disk s \<Longrightarrow> FsUnlink p \<in> set (trace (cleanup_files w fs s))"
proof (induction fs arbitrary: s)
  case Nil
  then show ?case by simp
next
  case (Cons f fs)
  let ?s1 = "if f \<in> disk s then snd (catchE (io_unlink w f) (\<lambda>error. returnE ()) s) else s"
  have "FsUnlink p \<in> set (trace (cleanup_files w fs ?s1))"
  proof (cases "p = f")
    case True
    with Cons.prems have "FsUnlink p \<in> set (trace ?s1)"
      by (simp add: unlink_step_trace)
    then show ?thesis
      using cleanup_files_trace_mono[of ?s1 w fs] by (rule rev_subsetD)
  next
    case False
    with Cons.prems have "p \<in> set fs" by simp
    moreover from False Cons.prems have "p \<in> disk ?s1"
      by (cases "f \<in> disk s") (simp_all add: unlink_step_disk)
    ultimately show ?thesis by (rule Cons.IH)
  qed
  then show ?case by (simp only: cleanup_files.simps)
qed

lemma cleanup_files_removes:
  "p \<in> set fs \<Longrightarrow> \<forall>h. fs_unlink w h p = None \<Longrightarrow> p \<notin> disk (cleanup_files w fs s)"
proof (induction fs arbitrary: s)
  case Nil
  then show ?case by simp
next
  case (Cons f fs)
  let ?s1 = "if f \<in> disk s then snd (catchE (io_unlink w f) (\<lambda>error. returnE ()) s) else s"
  have main: "p \<notin> disk (cleanup_files w fs ?s1)"
  proof (cases "p = f")
    case True
    with Cons.prems have "p \<notin> disk ?s1"
      by (cases "f \<in> disk s") (simp_all add: unlink_step_disk)
    then show ?thesis
      using cleanup_files_disk_mono[of w fs ?s1] by blast
  next
    case False
    with Cons.prems have "p \<in> set fs" by simp
    then show ?thesis using Cons.prems(2) by (rule Cons.IH)
  qed
  show ?case unfolding cleanup_files.simps by (rule main)
qed

lemma generateImage_try_eq:
  "generateImage_try w this ideaId prompt references s =
     ((fst (catchE (generateImage_body w ideaId prompt references) (record_failure w ideaId) s), this\<lparr>tempFiles := []\<rparr>),
      cleanup_files w (tempFiles this) (snd (catchE (generateImage_body w ideaId prompt references) (record_failure w ideaId) s)))"
  by (simp add: generateImage_try_def cleanup_def split: prod.splits)

section \<open>The claims\<close>

subsection \<open>C1: the fallback ladder\<close>

text \<open>
  Claim C1, as the code has it. Take a call of \<open>generateImage\<close> whose inputs are valid
  and whose \<open>processing\<close> update succeeded, and let \<open>tp\<close> be the trimmed prompt of the
  tiers. If the request of the primary tier (dall-e-3) fails and the error thrown for
  it is a client error (its message contains one of \<open>Invalid OpenAI API key\<close>,
  \<open>access forbidden\<close>, \<open>Invalid request\<close>), the call throws that error, the
  secondary tier is not requested, and the last statement sets the status \<open>failed\<close>.
  If it fails with any other error and the secondary tier (dall-e-2) answers, the call
  goes on with that answer, and when it completes the last statement sets the status
  \<open>completed\<close>. If both requests fail, the error of the secondary tier is thrown and
  recorded. A response with status 401, 403 or 400 gives a client error; a response
  with status 429 or 500, and a request without response, do not. With no response and
  no recorded error the test after the loop throws \<open>All image generation models failed\<close>.
  An answer of the primary tier, whatever its shape, ends the ladder: the call goes on
  with it and the secondary tier is not requested.
\<close>

theorem C1_fallback_ladder:
  assumes "validateInputs w ideaId prompt s = (Inr u, s0)"
      and "pool_execute w (trace s0) ''UPDATE paintings SET status = ? WHERE idea_id = ?''
             [JStr ''processing'', ideaId] = Inr r0"
      and "s1 = s0\<lparr>trace := trace s0 @ [DbExecute ''UPDATE paintings SET status = ? WHERE idea_id = ?''
             [JStr ''processing'', ideaId]]\<rparr>"
      and "tp = trim (if references \<noteq> [] then ToString prompt @ '' (inspired by provided reference images)''
                      else ToString prompt)"
      and "s3 = s1\<lparr>trace := trace s1 @ [HttpPost images_url (dalle3_requestBody tp)]\<rparr>"
      and "s2 = s3\<lparr>trace := trace s3 @ [HttpPost images_url (dalle2_requestBody tp)]\<rparr>"
  shows
    "(\<forall>r1. axios_post w (trace s1) images_url (dalle3_requestBody tp) = Inr r1 \<longrightarrow>
        generateImage w ideaId prompt references s =
          catchE (complete_image w ideaId references r1) (record_failure w ideaId) s3)
   \<and> (\<forall>e. axios_post w (trace s1) images_url (dalle3_requestBody tp) = Inl e \<and> is_client_error (generation_error e) \<longrightarrow>
        generateImage w ideaId prompt references s =
          (Inl (generation_error e),
           s3\<lparr>trace := trace s3 @ [DbExecute ''UPDATE paintings SET status = ?, error_message = ? WHERE idea_id = ?''
              [JStr ''failed'', JStr (take 255 (message (generation_error e))), ideaId]]\<rparr>))
   \<and> (\<forall>e r2. axios_post w (trace s1) images_url (dalle3_requestBody tp) = Inl e \<and> \<not> is_client_error (generation_error e)
          \<and> axios_post w (trace s3) images_url (dalle2_requestBody tp) = Inr r2 \<longrightarrow>
        generateImage w ideaId prompt references s =
          catchE (complete_image w ideaId references r2) (record_failure w ideaId) s2
        \<and> (\<forall>res s'. complete_image w ideaId references r2 s2 = (Inr res, s') \<longrightarrow>
             generateImage w ideaId prompt references s = (Inr res, s')
             \<and> (\<exists>a b c. last (trace s') =
                   DbExecute ''UPDATE paintings SET status = ?, image_url = ?, image_data = ?, used_reference_ids = ? WHERE idea_id = ?''
                     [JStr ''completed'', JStr a, JStr b, c, ideaId])))
   \<and> (\<forall>e e2. axios_post w (trace s1) images_url (dalle3_requestBody tp) = Inl e \<and> \<not> is_client_error (generation_error e)
          \<and> axios_post w (trace s3) images_url (dalle2_requestBody tp) = Inl e2 \<longrightarrow>
        generateImage w ideaId prompt references s =
          (Inl e2,
           s2\<lparr>trace := trace s2 @ [DbExecute ''UPDATE paintings SET status = ?, error_message = ? WHERE idea_id = ?''
              [JStr ''failed'', JStr (take 255 (if message e2 = [] then ''Unknown error'' else message e2)), ideaId]]\<rparr>))
   \<and> (\<forall>e r. error_response e = Some r \<and> (res_status r = 401 \<or> res_status r = 403 \<or> res_status r = 400)
          \<longrightarrow> is_client_error (generation_error e))
   \<and> (\<forall>e r. error_response e = Some r \<and> (res_status r = 429 \<or> res_status r = 500)
          \<longrightarrow> \<not> is_client_error (generation_error e))
   \<and> (\<forall>e. error_response e = None \<and> error_request e \<longrightarrow> \<not> is_client_error (generation_error e))
   \<and> require_response (None, None) s = (Inl (Error ''All image generation models failed''), s)"
proof -
  from validateInputs_ok[OF assms(1)] obtain p where p: "prompt = JStr p" and "truthy ideaId"
    by blast
  then have undef: "ideaId \<noteq> JUndefined"
    by (simp add: truthy_not_undefined)
  have tp: "tp = trim (if references \<noteq> [] then p @ '' (inspired by provided reference images)'' else p)"
    using assms(4) p by simp
  note lad = generate_with_fallback_eq[OF tp assms(5) assms(6), of w]
  have gen: "generateImage w ideaId prompt references s =
      catchE (bindE (generate_with_fallback w (references \<noteq> []) (JStr p)) (complete_image w ideaId references))
        (record_failure w ideaId) s1"
    using generateImage_valid[OF assms(1)] generateImage_body_processing[OF undef assms(2)] assms(3) p
    by (simp add: catchE_def)
  have Z: "\<forall>r1. axios_post w (trace s1) images_url (dalle3_requestBody tp) = Inr r1 \<longrightarrow>
        generateImage w ideaId prompt references s =
          catchE (complete_image w ideaId references r1) (record_failure w ideaId) s3"
    by (simp add: gen lad catchE_def bindE_def)
  have A: "\<forall>e. axios_post w (trace s1) images_url (dalle3_requestBody tp) = Inl e \<and> is_client_error (generation_error e) \<longrightarrow>
        generateImage w ideaId prompt references s =
          (Inl (generation_error e),
           s3\<lparr>trace := trace s3 @ [DbExecute ''UPDATE paintings SET status = ?, error_message = ? WHERE idea_id = ?''
              [JStr ''failed'', JStr (take 255 (message (generation_error e))), ideaId]]\<rparr>)"
    by (simp add: gen lad catchE_def bindE_def record_failure_eq[OF undef] generation_error_message)
  have B: "\<forall>e r2. axios_post w (trace s1) images_url (dalle3_requestBody tp) = Inl e \<and> \<not> is_client_error (generation_error e)
          \<and> axios_post w (trace s3) images_url (dalle2_requestBody tp) = Inr r2 \<longrightarrow>
        generateImage w ideaId prompt references s =
          catchE (complete_image w ideaId references r2) (record_failure w ideaId) s2
        \<and> (\<forall>res s'. complete_image w ideaId references r2 s2 = (Inr res, s') \<longrightarrow>
             generateImage w ideaId prompt references s = (Inr res, s')
             \<and> (\<exists>a b c. last (trace s') =
                   DbExecute ''UPDATE paintings SET status = ?, image_url = ?, image_data = ?, used_reference_ids = ? WHERE idea_id = ?''
                     [JStr ''completed'', JStr a, JStr b, c, ideaId]))"
    by (auto simp add: gen lad catchE_def bindE_def dest: complete_image_last)
  have C: "\<forall>e e2. axios_post w (trace s1) images_url (dalle3_requestBody tp) = Inl e \<and> \<not> is_client_error (generation_error e)
          \<and> axios_post w (trace s3) images_url (dalle2_requestBody tp) = Inl e2 \<longrightarrow>
        generateImage w ideaId prompt references s =
          (Inl e2,
           s2\<lparr>trace := trace s2 @ [DbExecute ''UPDATE paintings SET status = ?, error_message = ? WHERE idea_id = ?''
              [JStr ''failed'', JStr (take 255 (if message e2 = [] then ''Unknown error'' else message e2)), ideaId]]\<rparr>)"
    by (simp add: gen lad catchE_def bindE_def record_failure_eq[OF undef])
  have D: "\<forall>e r. error_response e = Some r \<and> (res_status r = 401 \<or> res_status r = 403 \<or> res_status r = 400)
          \<longrightarrow> is_client_error (generation_error e)"
    using client_error_statuses by blast
  have E: "\<forall>e r. error_response e = Some r \<and> (res_status r = 429 \<or> res_status r = 500)
          \<longrightarrow> \<not> is_client_error (generation_error e)"
    using tier_local_statuses by blast
  have F: "\<forall>e. error_response e = None \<and> error_request e \<longrightarrow> \<not> is_client_error (generation_error e)"
    using tier_local_no_response by blast
  have G: "require_response (None, None) s = (Inl (Error ''All image generation models failed''), s)"
    by (simp add: require_response_def throwE_def)
  from Z A B C D E F G show ?thesis by (intro conjI)
qed


text \<open>
  Witness for C1: the primary tier is refused with 429, the secondary answers, and the
  call completes with the image of the secondary tier; refused with 401, the call
  fails after one request.
\<close>

theorem C1_fallback_ladder_witness:
  "validateInputs (primary_refused_world 429) (JNum 42) (JStr ''a red barn at sunset'') initial_state
     = (Inr (), initial_state\<lparr>apiKeyValidated := True\<rparr>)
   \<and> generateImage (primary_refused_world 429) (JNum 42) (JStr ''a red barn at sunset'') [] initial_state =
    (Inr (JObj [(''ideaId'', JNum 42), (''imageUrl'', JStr ''uploads/painting_42_1703.png''), (''status'', JStr ''completed'')]),
     \<lparr>apiKeyValidated = True, disk = {''/srv/uploads/painting_42_1703.png''},
      trace = [DbExecute ''UPDATE paintings SET status = ? WHERE idea_id = ?'' [JStr ''processing'', JNum 42],
               HttpPost images_url (dalle3_requestBody ''a red barn at sunset''),
               HttpPost images_url (dalle2_requestBody ''a red barn at sunset''),
               FsWriteFile ''/srv/uploads/painting_42_1703.png'' (JStr ''aGk=''),
               DbExecute ''UPDATE paintings SET status = ?, image_url = ?, image_data = ?, used_reference_ids = ? WHERE idea_id = ?''
                 [JStr ''completed'', JStr ''uploads/painting_42_1703.png'', JStr ''data:image/png;base64,aGk='', JNull, JNum 42]]\<rparr>)
   \<and> generateImage (primary_refused_world 401) (JNum 42) (JStr ''a red barn at sunset'') [] initial_state =
    (Inl (Error ''Invalid OpenAI API key''),
     \<lparr>apiKeyValidated = True, disk = {},
      trace = [DbExecute ''UPDATE paintings SET status = ? WHERE idea_id = ?'' [JStr ''processing'', JNum 42],
               HttpPost images_url (dalle3_requestBody ''a red barn at sunset''),
               DbExecute ''UPDATE paintings SET status = ?, error_message = ? WHERE idea_id = ?''
                 [JStr ''failed'', JStr ''Invalid OpenAI API key'', JNum 42]]\<rparr>)"
proof -
  have v: "validateInputs (primary_refused_world code) (JNum 42) (JStr ''a red barn at sunset'') initial_state
             = (Inr (), initial_state\<lparr>apiKeyValidated := True\<rparr>)" for code
    by (simp add: run_defs primary_refused_world_def)
  have pr: "pool_execute (primary_refused_world code) (trace (initial_state\<lparr>apiKeyValidated := True\<rparr>))
              ''UPDATE paintings SET status = ? WHERE idea_id = ?'' [JStr ''processing'', JNum 42]
             = Inr (JArr [JObj [(''insertId'', JNum 7)], JUndefined])" for code
    by (simp add: run_defs primary_refused_world_def)
  have s429: "axios_post (primary_refused_world 429) h images_url (dalle2_requestBody t) = Inr inline_image" for h t
    by (simp add: primary_refused_world_def dalle2_requestBody_def opt_member_def get_member_def obj_get_def)
  have p: "axios_post (primary_refused_world code) h images_url (dalle3_requestBody t)
            = Inl (AxiosError ''Request failed'' (Some (Response code (JObj [(''error'', JObj [(''message'', JStr ''refused'')])]))) True)" for code h t
    by (simp add: primary_refused_world_def dalle3_requestBody_def opt_member_def get_member_def obj_get_def)
  have c429: "\<not> is_client_error (generation_error
       (AxiosError ''Request failed'' (Some (Response 429 (JObj [(''error'', JObj [(''message'', JStr ''refused'')])]))) True))"
    by (simp add: generation_error_def is_client_error_def starts_with_def)
  have c401: "is_client_error (generation_error
       (AxiosError ''Request failed'' (Some (Response 401 (JObj [(''error'', JObj [(''message'', JStr ''refused'')])]))) True))"
    by (simp add: generation_error_def is_client_error_def starts_with_def)
  from C1_fallback_ladder[OF v[of 429] pr[of 429] refl refl refl refl, of "[]", THEN conjunct2, THEN conjunct2, THEN conjunct1,
      rule_format, OF conjI[OF p conjI[OF c429 s429]], THEN conjunct1]
  have a: "generateImage (primary_refused_world 429) (JNum 42) (JStr ''a red barn at sunset'') [] initial_state =
    (Inr (JObj [(''ideaId'', JNum 42), (''imageUrl'', JStr ''uploads/painting_42_1703.png''), (''status'', JStr ''completed'')]),
     \<lparr>apiKeyValidated = True, disk = {''/srv/uploads/painting_42_1703.png''},
      trace = [DbExecute ''UPDATE paintings SET status = ? WHERE idea_id = ?'' [JStr ''processing'', JNum 42],
               HttpPost images_url (dalle3_requestBody ''a red barn at sunset''),
               HttpPost images_url (dalle2_requestBody ''a red barn at sunset''),
               FsWriteFile ''/srv/uploads/painting_42_1703.png'' (JStr ''aGk=''),
               DbExecute ''UPDATE paintings SET status = ?, image_url = ?, image_data = ?, used_reference_ids = ? WHERE idea_id = ?''
                 [JStr ''completed'', JStr ''uploads/painting_42_1703.png'', JStr ''data:image/png;base64,aGk='', JNull, JNum 42]]\<rparr>)"
    by (simp add: run_defs primary_refused_world_def)
  from C1_fallback_ladder[OF v[of 401] pr[of 401] refl refl refl refl, of "[]", THEN conjunct2, THEN conjunct1,
      rule_format, OF conjI[OF p c401]]
  have b: "generateImage (primary_refused_world 401) (JNum 42) (JStr ''a red barn at sunset'') [] initial_state =
    (Inl (Error ''Invalid OpenAI API key''),
     \<lparr>apiKeyValidated = True, disk = {},
      trace = [DbExecute ''UPDATE paintings SET status = ? WHERE idea_id = ?'' [JStr ''processing'', JNum 42],
               HttpPost images_url (dalle3_requestBody ''a red barn at sunset''),
               DbExecute ''UPDATE paintings SET status = ?, error_message = ? WHERE idea_id = ?''
                 [JStr ''failed'', JStr ''Invalid OpenAI API key'', JNum 42]]\<rparr>)"
    by (simp add: run_defs primary_refused_world_def)
  from v[of 429] a b show ?thesis
    by (intro conjI)
qed

text \<open>
  Counterexample to C1 as stated: the primary tier answers with an empty list of
  results, a malformed response. The secondary tier would answer with an image, but it
  is not requested: the call fails in the extraction and the record ends \<open>failed\<close>.
\<close>

theorem C1_counterexample:
  "generateImage malformed_primary_world (JNum 42) (JStr ''a red barn at sunset'') [] initial_state =
    (Inl (Error ''Failed to extract image data from API response''),
     \<lparr>apiKeyValidated = True, disk = {},
      trace = [DbExecute ''UPDATE paintings SET status = ? WHERE idea_id = ?'' [JStr ''processing'', JNum 42],
               HttpPost images_url (dalle3_requestBody ''a red barn at sunset''),
               DbExecute ''UPDATE paintings SET status = ?, error_message = ? WHERE idea_id = ?''
                 [JStr ''failed'', JStr ''Failed to extract image data from API response'', JNum 42]]\<rparr>)
   \<and> axios_post malformed_primary_world
        [DbExecute ''UPDATE paintings SET status = ? WHERE idea_id = ?'' [JStr ''processing'', JNum 42],
         HttpPost images_url (dalle3_requestBody ''a red barn at sunset'')]
        images_url (dalle2_requestBody ''a red barn at sunset'') = Inr inline_image"
  by (simp add: run_defs malformed_primary_world_def)

subsection \<open>C2: a successful call\<close>

text \<open>
  Claim C2. When \<open>generateImage\<close> returns and the provider answers every image request
  with \<open>{data: [{b64_json: X}]}\<close>, the call has made exactly four requests: the
  statement that sets the status \<open>processing\<close> for the idea, the request of the
  primary tier, the writing of the file \<open>painting_<ideaId>_<time>.png\<close> in the uploads
  directory, and the statement that sets the status \<open>completed\<close> with \<open>image_url\<close>
  \<open>uploads/<name>\<close>, \<open>image_data\<close> \<open>data:image/png;base64,X\<close> and
  \<open>used_reference_ids\<close>. With \<open>ids\<close> the \<open>id\<close> members of the references given, in
  order, and \<open>kept\<close> those of them that are not \<open>null\<close> or \<open>undefined\<close>,
  \<open>used_reference_ids\<close> is \<open>null\<close> when \<open>kept\<close> is empty, as it is when no
  reference was given, and the JSON array of \<open>kept\<close> otherwise (for numbers, the
  decimal numbers between brackets, separated by commas). The value returned is
  \<open>{ideaId, imageUrl: uploads/<name>, status: completed}\<close>.
\<close>

theorem C2_successful_generation:
  assumes "generateImage w ideaId prompt references s = (Inr result, s')"
      and "\<forall>h body. axios_post w h images_url body =
             Inr (Response st (JObj [(''data'', JArr [JObj [(''b64_json'', JStr X)]])]))"
      and "tp = trim (if references \<noteq> [] then ToString prompt @ '' (inspired by provided reference images)''
                      else ToString prompt)"
      and "h = trace s @ [DbExecute ''UPDATE paintings SET status = ? WHERE idea_id = ?'' [JStr ''processing'', ideaId],
                          HttpPost images_url (dalle3_requestBody tp)]"
      and "name = ''painting_'' @ ToString ideaId @ ''_'' @ nat_digits (Date_now w h) @ ''.png''"
      and "ids = map (\<lambda>r. opt_member r ''id'') references"
      and "kept = filter (\<lambda>i. i \<noteq> JNull \<and> i \<noteq> JUndefined) ids"
  shows "result = JObj [(''ideaId'', ideaId), (''imageUrl'', JStr (''uploads/'' @ name)), (''status'', JStr ''completed'')]
       \<and> trace s' = h @
            [FsWriteFile (path_join w (UPLOADS_DIR w) name) (JStr X),
             DbExecute ''UPDATE paintings SET status = ?, image_url = ?, image_data = ?, used_reference_ids = ? WHERE idea_id = ?''
               [JStr ''completed'', JStr (''uploads/'' @ name), JStr (''data:image/png;base64,'' @ X),
                (if kept = [] then JNull else JSON_stringify (JArr kept)), ideaId]]
       \<and> (references = [] \<longrightarrow> kept = [])
       \<and> (\<forall>ns. kept = map JNum ns \<longrightarrow>
             JSON_stringify (JArr kept) = JStr (''['' @ join '','' (map int_to_string ns) @ '']''))
       \<and> reference_ids references = Inr ids
       \<and> path_join w (UPLOADS_DIR w) name \<in> disk s'"
proof -
  from generateImage_Inr_valid[OF assms(1)] obtain u s0 where v: "validateInputs w ideaId prompt s = (Inr u, s0)"
    by blast
  from validateInputs_ok[OF v] obtain p where p: "prompt = JStr p" and "truthy ideaId"
    and s0: "s0 = s\<lparr>apiKeyValidated := True\<rparr>"
    by blast
  then have undef: "ideaId \<noteq> JUndefined"
    by (simp add: truthy_not_undefined)
  have body: "generateImage_body w ideaId prompt references s0 = (Inr result, s')"
    using assms(1) generateImage_valid[OF v] catchE_Inr[OF _ undef] by simp
  from generateImage_body_Inr[OF body undef] obtain r0 where
    pr: "pool_execute w (trace s0) ''UPDATE paintings SET status = ? WHERE idea_id = ?'' [JStr ''processing'', ideaId] = Inr r0"
    by blast
  define s1 where "s1 = s0\<lparr>trace := trace s0 @ [DbExecute ''UPDATE paintings SET status = ? WHERE idea_id = ?'' [JStr ''processing'', ideaId]]\<rparr>"
  define s3 where "s3 = s1\<lparr>trace := trace s1 @ [HttpPost images_url (dalle3_requestBody tp)]\<rparr>"
  define s2 where "s2 = s3\<lparr>trace := trace s3 @ [HttpPost images_url (dalle2_requestBody tp)]\<rparr>"
  have tp: "tp = trim (if references \<noteq> [] then p @ '' (inspired by provided reference images)'' else p)"
    using assms(3) p by simp
  have lad: "generate_with_fallback w (references \<noteq> []) (JStr p) s1 =
      (Inr (Response st (JObj [(''data'', JArr [JObj [(''b64_json'', JStr X)]])])), s3)"
    using generate_with_fallback_eq[OF tp s3_def s2_def, of w] assms(2) by simp
  have ci: "complete_image w ideaId references (Response st (JObj [(''data'', JArr [JObj [(''b64_json'', JStr X)]])])) s3
              = (Inr result, s')"
    using body generateImage_body_processing[OF undef pr, of prompt references] lad p
    by (simp add: s1_def bindE_def)
  have h: "trace s3 = h"
    by (simp add: s3_def s1_def s0 assms(4))
  from complete_image_success[OF ci] obtain imageData sx ids0 where
    ex: "extractImageData w (Response st (JObj [(''data'', JArr [JObj [(''b64_json'', JStr X)]])])) (references \<noteq> []) s3
           = (Inr imageData, sx)"
    and rest: "reference_ids references = Inr ids0"
      "result = JObj [(''ideaId'', ideaId),
                (''imageUrl'', JStr (''uploads/painting_'' @ ToString ideaId @ ''_'' @ nat_digits (Date_now w (trace sx)) @ ''.png'')),
                (''status'', JStr ''completed'')]"
      "trace s' = trace sx @
              [FsWriteFile (path_join w (UPLOADS_DIR w) (''painting_'' @ ToString ideaId @ ''_'' @ nat_digits (Date_now w (trace sx)) @ ''.png'')) imageData,
               DbExecute ''UPDATE paintings SET status = ?, image_url = ?, image_data = ?, used_reference_ids = ? WHERE idea_id = ?''
                 [JStr ''completed'',
                  JStr (''uploads/painting_'' @ ToString ideaId @ ''_'' @ nat_digits (Date_now w (trace sx)) @ ''.png''),
                  JStr (''data:image/png;base64,'' @ ToString imageData),
                  usedReferenceIdsJSON ids0, ideaId]]"
      "disk s' = insert (path_join w (UPLOADS_DIR w) (''painting_'' @ ToString ideaId @ ''_'' @ nat_digits (Date_now w (trace sx)) @ ''.png'')) (disk sx)"
    by blast
  from ex have im: "imageData = JStr X" and sx: "sx = s3"
    by (auto simp add: extract_inline split: if_splits)
  from reference_ids_Inr[OF rest(1)] have ids0: "ids0 = ids"
    by (simp add: assms(6))
  have used: "usedReferenceIdsJSON ids = (if kept = [] then JNull else JSON_stringify (JArr kept))"
    by (simp add: usedReferenceIdsJSON_def Let_def assms(7))
  have nul: "references = [] \<longrightarrow> kept = []"
    by (simp add: assms(6) assms(7))
  have num: "\<forall>ns. kept = map JNum ns \<longrightarrow>
             JSON_stringify (JArr kept) = JStr (''['' @ join '','' (map int_to_string ns) @ '']'')"
    by (simp add: serialize_numbers)
  have 1: "result = JObj [(''ideaId'', ideaId), (''imageUrl'', JStr (''uploads/'' @ name)), (''status'', JStr ''completed'')]"
    using rest(2) sx h by (simp add: assms(5))
  have 2: "trace s' = h @
            [FsWriteFile (path_join w (UPLOADS_DIR w) name) (JStr X),
             DbExecute ''UPDATE paintings SET status = ?, image_url = ?, image_data = ?, used_reference_ids = ? WHERE idea_id = ?''
               [JStr ''completed'', JStr (''uploads/'' @ name), JStr (''data:image/png;base64,'' @ X),
                (if kept = [] then JNull else JSON_stringify (JArr kept)), ideaId]]"
    using rest(3) im sx h ids0 used by (simp add: assms(5))
  have 3: "reference_ids references = Inr ids"
    using rest(1) ids0 by simp
  have 4: "path_join w (UPLOADS_DIR w) name \<in> disk s'"
    using rest(4) sx h by (simp add: assms(5))
  from 1 2 nul num 3 4 show ?thesis by (intro conjI)
qed

text \<open>
  Witness for C2: the scenario of idea 42 on the example collaborators, with no
  reference, and with three references of which the first has the id 3, the second
  the id \<open>r-7\<close> and the third none: the array stored is \<open>[3,"r-7"]\<close>.
\<close>

theorem C2_successful_generation_witness:
  "generateImage demo_world (JNum 42) (JStr ''a red barn at sunset'') [] initial_state =
    (Inr (JObj [(''ideaId'', JNum 42), (''imageUrl'', JStr ''uploads/painting_42_1702.png''), (''status'', JStr ''completed'')]),
     \<lparr>apiKeyValidated = True, disk = {''/srv/uploads/painting_42_1702.png''},
      trace = [DbExecute ''UPDATE paintings SET status = ? WHERE idea_id = ?'' [JStr ''processing'', JNum 42],
               HttpPost images_url (dalle3_requestBody ''a red barn at sunset''),
               FsWriteFile ''/srv/uploads/painting_42_1702.png'' (JStr ''aGk=''),
               DbExecute ''UPDATE paintings SET status = ?, image_url = ?, image_data = ?, used_reference_ids = ? WHERE idea_id = ?''
                 [JStr ''completed'', JStr ''uploads/painting_42_1702.png'', JStr ''data:image/png;base64,aGk='', JNull, JNum 42]]\<rparr>)
   \<and> (\<forall>h body. axios_post demo_world h images_url body =
          Inr (Response 200 (JObj [(''data'', JArr [JObj [(''b64_json'', JStr ''aGk='')]])])))
   \<and> ''/srv/uploads/painting_42_1702.png'' \<in> disk (snd (generateImage demo_world (JNum 42) (JStr ''a red barn at sunset'') [] initial_state))
   \<and> generateImage demo_world (JNum 42) (JStr ''a red barn at sunset'') three_references initial_state =
    (Inr (JObj [(''ideaId'', JNum 42), (''imageUrl'', JStr ''uploads/painting_42_1702.png''), (''status'', JStr ''completed'')]),
     \<lparr>apiKeyValidated = True, disk = {''/srv/uploads/painting_42_1702.png''},
      trace = [DbExecute ''UPDATE paintings SET status = ? WHERE idea_id = ?'' [JStr ''processing'', JNum 42],
               HttpPost images_url (dalle3_requestBody ''a red barn at sunset (inspired by provided reference images)''),
               FsWriteFile ''/srv/uploads/painting_42_1702.png'' (JStr ''aGk=''),
               DbExecute ''UPDATE paintings SET status = ?, image_url = ?, image_data = ?, used_reference_ids = ? WHERE idea_id = ?''
                 [JStr ''completed'', JStr ''uploads/painting_42_1702.png'', JStr ''data:image/png;base64,aGk='',
                  JStr (''[3,'' @ quoted ''r-7'' @ '']''), JNum 42]]\<rparr>)
   \<and> map (\<lambda>r. opt_member r ''id'') three_references = [JNum 3, JStr ''r-7'', JUndefined]
   \<and> trace (snd (generateImage demo_world (JNum 42) (JStr ''a red barn at sunset'') three_references initial_state)) =
        [DbExecute ''UPDATE paintings SET status = ? WHERE idea_id = ?'' [JStr ''processing'', JNum 42],
         HttpPost images_url (dalle3_requestBody ''a red barn at sunset (inspired by provided reference images)''),
         FsWriteFile ''/srv/uploads/painting_42_1702.png'' (JStr ''aGk=''),
         DbExecute ''UPDATE paintings SET status = ?, image_url = ?, image_data = ?, used_reference_ids = ? WHERE idea_id = ?''
           [JStr ''completed'', JStr ''uploads/painting_42_1702.png'', JStr ''data:image/png;base64,aGk='',
            JSON_stringify (JArr [JNum 3, JStr ''r-7'']), JNum 42]]
   \<and> JSON_stringify (JArr [JNum 3, JStr ''r-7'']) = JStr (''[3,'' @ quoted ''r-7'' @ '']'')"
proof -
  have run: "generateImage demo_world (JNum 42) (JStr ''a red barn at sunset'') [] initial_state =
    (Inr (JObj [(''ideaId'', JNum 42), (''imageUrl'', JStr ''uploads/painting_42_1702.png''), (''status'', JStr ''completed'')]),
     \<lparr>apiKeyValidated = True, disk = {''/srv/uploads/painting_42_1702.png''},
      trace = [DbExecute ''UPDATE paintings SET status = ? WHERE idea_id = ?'' [JStr ''processing'', JNum 42],
               HttpPost images_url (dalle3_requestBody ''a red barn at sunset''),
               FsWriteFile ''/srv/uploads/painting_42_1702.png'' (JStr ''aGk=''),
               DbExecute ''UPDATE paintings SET status = ?, image_url = ?, image_data = ?, used_reference_ids = ? WHERE idea_id = ?''
                 [JStr ''completed'', JStr ''uploads/painting_42_1702.png'', JStr ''data:image/png;base64,aGk='', JNull, JNum 42]]\<rparr>)"
    by (simp add: run_defs)
  have stub: "\<forall>h body. axios_post demo_world h images_url body =
          Inr (Response 200 (JObj [(''data'', JArr [JObj [(''b64_json'', JStr ''aGk='')]])]))"
    by (simp add: demo_world_def images_url_def OPENROUTER_URL_def inline_image_def)
  from C2_successful_generation[OF run stub refl refl refl refl refl, THEN conjunct2, THEN conjunct2,
      THEN conjunct2, THEN conjunct2, THEN conjunct2]
  have "''/srv/uploads/painting_42_1702.png'' \<in> disk
     \<lparr>apiKeyValidated = True, disk = {''/srv/uploads/painting_42_1702.png''},
      trace = [DbExecute ''UPDATE paintings SET status = ? WHERE idea_id = ?'' [JStr ''processing'', JNum 42],
               HttpPost images_url (dalle3_requestBody ''a red barn at sunset''),
               FsWriteFile ''/srv/uploads/painting_42_1702.png'' (JStr ''aGk=''),
               DbExecute ''UPDATE paintings SET status = ?, image_url = ?, image_data = ?, used_reference_ids = ? WHERE idea_id = ?''
                 [JStr ''completed'', JStr ''uploads/painting_42_1702.png'', JStr ''data:image/png;base64,aGk='', JNull, JNum 42]]\<rparr>"
    by (simp add: demo_world_def initial_state_def trim_def is_js_space_def int_to_string_def nat_digits.simps)
  with run have d: "''/srv/uploads/painting_42_1702.png''
      \<in> disk (snd (generateImage demo_world (JNum 42) (JStr ''a red barn at sunset'') [] initial_state))"
    by simp
  have json: "JSON_stringify (JArr [JNum 3, JStr ''r-7'']) = JStr (''[3,'' @ quoted ''r-7'' @ '']'')"
    by (simp add: JSON_stringify_def quote_string_def quote_char_def quoted_def int_to_string_def nat_digits.simps)
  have run3: "generateImage demo_world (JNum 42) (JStr ''a red barn at sunset'') three_references initial_state =
    (Inr (JObj [(''ideaId'', JNum 42), (''imageUrl'', JStr ''uploads/painting_42_1702.png''), (''status'', JStr ''completed'')]),
     \<lparr>apiKeyValidated = True, disk = {''/srv/uploads/painting_42_1702.png''},
      trace = [DbExecute ''UPDATE paintings SET status = ? WHERE idea_id = ?'' [JStr ''processing'', JNum 42],
               HttpPost images_url (dalle3_requestBody ''a red barn at sunset (inspired by provided reference images)''),
               FsWriteFile ''/srv/uploads/painting_42_1702.png'' (JStr ''aGk=''),
               DbExecute ''UPDATE paintings SET status = ?, image_url = ?, image_data = ?, used_reference_ids = ? WHERE idea_id = ?''
                 [JStr ''completed'', JStr ''uploads/painting_42_1702.png'', JStr ''data:image/png;base64,aGk='',
                  JStr (''[3,'' @ quoted ''r-7'' @ '']''), JNum 42]]\<rparr>)"
    by (simp add: run_defs three_references_def JSON_stringify_def quote_string_def quote_char_def quoted_def)
  have ids: "map (\<lambda>r. opt_member r ''id'') three_references = [JNum 3, JStr ''r-7'', JUndefined]"
    by (simp add: three_references_def opt_member_def get_member_def obj_get_def)
  have ne: "three_references \<noteq> []"
    by (simp add: three_references_def)
  have kept: "filter (\<lambda>i. i \<noteq> JNull \<and> i \<noteq> JUndefined) [JNum 3, JStr ''r-7'', JUndefined] = [JNum 3, JStr ''r-7'']"
    by simp
  from C2_successful_generation[OF run3 stub refl refl refl refl refl, THEN conjunct2, THEN conjunct1]
  have "trace
     \<lparr>apiKeyValidated = True, disk = {''/srv/uploads/painting_42_1702.png''},
      trace = [DbExecute ''UPDATE paintings SET status = ? WHERE idea_id = ?'' [JStr ''processing'', JNum 42],
         HttpPost images_url (dalle3_requestBody ''a red barn at sunset (inspired by provided reference images)''),
         FsWriteFile ''/srv/uploads/painting_42_1702.png'' (JStr ''aGk=''),
         DbExecute ''UPDATE paintings SET status = ?, image_url = ?, image_data = ?, used_reference_ids = ? WHERE idea_id = ?''
           [JStr ''completed'', JStr ''uploads/painting_42_1702.png'', JStr ''data:image/png;base64,aGk='',
            JStr (''[3,'' @ quoted ''r-7'' @ '']''), JNum 42]]\<rparr> =
        [DbExecute ''UPDATE paintings SET status = ? WHERE idea_id = ?'' [JStr ''processing'', JNum 42],
         HttpPost images_url (dalle3_requestBody ''a red barn at sunset (inspired by provided reference images)''),
         FsWriteFile ''/srv/uploads/painting_42_1702.png'' (JStr ''aGk=''),
         DbExecute ''UPDATE paintings SET status = ?, image_url = ?, image_data = ?, used_reference_ids = ? WHERE idea_id = ?''
           [JStr ''completed'', JStr ''uploads/painting_42_1702.png'', JStr ''data:image/png;base64,aGk='',
            JSON_stringify (JArr [JNum 3, JStr ''r-7'']), JNum 42]]"
    by (simp add: ids kept ne demo_world_def initial_state_def trim_def is_js_space_def
        int_to_string_def nat_digits.simps)
  with run3 have t: "trace (snd (generateImage demo_world (JNum 42) (JStr ''a red barn at sunset'') three_references initial_state)) =
        [DbExecute ''UPDATE paintings SET status = ? WHERE idea_id = ?'' [JStr ''processing'', JNum 42],
         HttpPost images_url (dalle3_requestBody ''a red barn at sunset (inspired by provided reference images)''),
         FsWriteFile ''/srv/uploads/painting_42_1702.png'' (JStr ''aGk=''),
         DbExecute ''UPDATE paintings SET status = ?, image_url = ?, image_data = ?, used_reference_ids = ? WHERE idea_id = ?''
           [JStr ''completed'', JStr ''uploads/painting_42_1702.png'', JStr ''data:image/png;base64,aGk='',
            JSON_stringify (JArr [JNum 3, JStr ''r-7'']), JNum 42]]"
    by simp
  from run stub d run3 ids t json show ?thesis
    by (intro conjI)
qed

subsection \<open>C3: the failure path\<close>

text \<open>
  Claim C3, as the code has it. When the \<open>try\<close> block of \<open>generateImage\<close> throws an
  error after the inputs were validated, the call gives one more statement to the
  database, which sets the status \<open>failed\<close> and \<open>error_message\<close> to the first 255
  characters of the message of the error, or of \<open>Unknown error\<close> when that message is
  empty; whatever the database answers to it, the call throws the error of the
  \<open>try\<close> block.
\<close>

theorem C3_failure_recorded:
  assumes "validateInputs w ideaId prompt s = (Inr u, s0)"
      and "generateImage_body w ideaId prompt references s0 = (Inl e, s1)"
  shows "generateImage w ideaId prompt references s =
           (Inl e, s1\<lparr>trace := trace s1 @
              [DbExecute ''UPDATE paintings SET status = ?, error_message = ? WHERE idea_id = ?''
                 [JStr ''failed'', JStr (take 255 (if message e = [] then ''Unknown error'' else message e)), ideaId]]\<rparr>)
         \<and> length (take 255 (if message e = [] then ''Unknown error'' else message e)) \<le> 255"
proof -
  from assms(1) have "ideaId \<noteq> JUndefined"
    by (auto dest: validateInputs_ok)
  with assms show ?thesis
    by (simp add: generateImage_valid catchE_def record_failure_eq)
qed


text \<open>
  Witness for C3: the database rejects every statement. The first update fails, the
  update to \<open>failed\<close> fails too, and the caller gets the error of the first update.
\<close>

theorem C3_failure_recorded_witness:
  "generateImage (db_down_world ''Connection lost'') (JNum 42) (JStr ''a red barn at sunset'') [] initial_state =
    (Inl (ExternalError ''Connection lost''),
     \<lparr>apiKeyValidated = True, disk = {},
      trace = [DbExecute ''UPDATE paintings SET status = ? WHERE idea_id = ?'' [JStr ''processing'', JNum 42],
               DbExecute ''UPDATE paintings SET status = ?, error_message = ? WHERE idea_id = ?''
                 [JStr ''failed'', JStr ''Connection lost'', JNum 42]]\<rparr>)
   \<and> pool_execute (db_down_world ''Connection lost'')
        [DbExecute ''UPDATE paintings SET status = ? WHERE idea_id = ?'' [JStr ''processing'', JNum 42]]
        ''UPDATE paintings SET status = ?, error_message = ? WHERE idea_id = ?''
        [JStr ''failed'', JStr ''Connection lost'', JNum 42] = Inl (ExternalError ''Connection lost'')"
proof -
  have v: "validateInputs (db_down_world ''Connection lost'') (JNum 42) (JStr ''a red barn at sunset'') initial_state
             = (Inr (), initial_state\<lparr>apiKeyValidated := True\<rparr>)"
    by (simp add: run_defs db_down_world_def)
  have body: "generateImage_body (db_down_world ''Connection lost'') (JNum 42) (JStr ''a red barn at sunset'') []
                (initial_state\<lparr>apiKeyValidated := True\<rparr>)
             = (Inl (ExternalError ''Connection lost''),
                \<lparr>apiKeyValidated = True, disk = {},
                 trace = [DbExecute ''UPDATE paintings SET status = ? WHERE idea_id = ?'' [JStr ''processing'', JNum 42]]\<rparr>)"
    by (simp add: run_defs db_down_world_def)
  from C3_failure_recorded[OF v body] show ?thesis
    by (simp add: db_down_world_def demo_world_def)
qed

text \<open>
  Counterexample to C3 as stated: the database rejects the first update with an error
  whose message is empty. The message recorded is \<open>Unknown error\<close>, which is not the
  message of the error truncated.
\<close>

theorem C3_counterexample:
  "generateImage (db_down_world []) (JNum 42) (JStr ''a red barn at sunset'') [] initial_state =
    (Inl (ExternalError []),
     \<lparr>apiKeyValidated = True, disk = {},
      trace = [DbExecute ''UPDATE paintings SET status = ? WHERE idea_id = ?'' [JStr ''processing'', JNum 42],
               DbExecute ''UPDATE paintings SET status = ?, error_message = ? WHERE idea_id = ?''
                 [JStr ''failed'', JStr ''Unknown error'', JNum 42]]\<rparr>)
   \<and> ''Unknown error'' \<noteq> substring0 255 (message (ExternalError []))"
  by (simp add: run_defs db_down_world_def)

subsection \<open>C4: cleanup of temporary files\<close>

text \<open>
  Claim C4. \<open>cleanup\<close> returns with an empty list of tracked files; every tracked
  file that is on disk gets a request to delete it, whatever happened to the others;
  a tracked file whose deletion does not fail is not on disk afterwards. The statement
  \<open>try\<close>/\<open>catch\<close>/\<open>finally\<close> of \<open>generateImage\<close> ends with the cleanup of its
  manager on every path: the manager is empty after it, the tracked files on disk have
  got their request, and those whose deletion does not fail are gone. A temporary file
  that was created is tracked. A call of \<open>generateImage\<close> that passes the validation
  is this statement on a new manager, which tracks no file.
\<close>

theorem C4_cleanup:
  "tempFiles (fst (cleanup w this s)) = []
   \<and> (\<forall>p \<in> set (tempFiles this). p \<in> disk s \<longrightarrow> FsUnlink p \<in> set (trace (snd (cleanup w this s))))
   \<and> (\<forall>p \<in> set (tempFiles this). (\<forall>h. fs_unlink w h p = None) \<longrightarrow> p \<notin> disk (snd (cleanup w this s)))
   \<and> tempFiles (snd (fst (generateImage_try w this ideaId prompt references s))) = []
   \<and> (\<forall>p \<in> set (tempFiles this).
         p \<in> disk (snd (catchE (generateImage_body w ideaId prompt references) (record_failure w ideaId) s))
         \<longrightarrow> FsUnlink p \<in> set (trace (snd (generateImage_try w this ideaId prompt references s))))
   \<and> (\<forall>p \<in> set (tempFiles this). (\<forall>h. fs_unlink w h p = None)
         \<longrightarrow> p \<notin> disk (snd (generateImage_try w this ideaId prompt references s)))
   \<and> (\<forall>path this' s'. createTempFile w this base64Data pre s = ((Inr path, this'), s')
         \<longrightarrow> path \<in> set (tempFiles this') \<and> path \<in> disk s')
   \<and> (\<forall>u s0. validateInputs w ideaId prompt s = (Inr u, s0) \<longrightarrow>
         generateImage w ideaId prompt references s =
           (fst (fst (generateImage_try w \<lparr>tempFiles = []\<rparr> ideaId prompt references s0)),
            snd (generateImage_try w \<lparr>tempFiles = []\<rparr> ideaId prompt references s0)))"
proof -
  have 1: "tempFiles (fst (cleanup w this s)) = []"
    by (simp add: cleanup_def)
  have 2: "\<forall>p \<in> set (tempFiles this). p \<in> disk s \<longrightarrow> FsUnlink p \<in> set (trace (snd (cleanup w this s)))"
    by (simp add: cleanup_def cleanup_files_attempts)
  have 3: "\<forall>p \<in> set (tempFiles this). (\<forall>h. fs_unlink w h p = None) \<longrightarrow> p \<notin> disk (snd (cleanup w this s))"
    by (simp add: cleanup_def cleanup_files_removes)
  have 4: "tempFiles (snd (fst (generateImage_try w this ideaId prompt references s))) = []"
    by (simp add: generateImage_try_eq)
  have 5: "\<forall>p \<in> set (tempFiles this).
         p \<in> disk (snd (catchE (generateImage_body w ideaId prompt references) (record_failure w ideaId) s))
         \<longrightarrow> FsUnlink p \<in> set (trace (snd (generateImage_try w this ideaId prompt references s)))"
    by (simp add: generateImage_try_eq cleanup_files_attempts)
  have 6: "\<forall>p \<in> set (tempFiles this). (\<forall>h. fs_unlink w h p = None)
         \<longrightarrow> p \<notin> disk (snd (generateImage_try w this ideaId prompt references s))"
    by (simp add: generateImage_try_eq cleanup_files_removes)
  have 7: "\<forall>path this' s'. createTempFile w this base64Data pre s = ((Inr path, this'), s')
         \<longrightarrow> path \<in> set (tempFiles this') \<and> path \<in> disk s'"
    by (auto simp add: createTempFile_def Let_def io_writeFile_def split: sum.splits option.splits prod.splits)
  have 8: "\<forall>u s0. validateInputs w ideaId prompt s = (Inr u, s0) \<longrightarrow>
         generateImage w ideaId prompt references s =
           (fst (fst (generateImage_try w \<lparr>tempFiles = []\<rparr> ideaId prompt references s0)),
            snd (generateImage_try w \<lparr>tempFiles = []\<rparr> ideaId prompt references s0))"
    by (simp add: generateImage_def new_TempFileManager_def split: prod.splits)
  from 1 2 3 4 5 6 7 8 show ?thesis by (intro conjI)
qed


text \<open>
  Witness for C4: a manager tracks two files on disk and the first cannot be deleted.
  Both get their request, the second is gone and the manager is empty.
\<close>

theorem C4_cleanup_witness:
  "''/srv/uploads/ref_1.png'' \<in> set (tempFiles \<lparr>tempFiles = [''/srv/uploads/ref_0.png'', ''/srv/uploads/ref_1.png'']\<rparr>)
   \<and> ''/srv/uploads/ref_1.png'' \<in> disk cluttered_state
   \<and> (\<forall>h. fs_unlink stuck_file_world h ''/srv/uploads/ref_1.png'' = None)
   \<and> cleanup stuck_file_world \<lparr>tempFiles = [''/srv/uploads/ref_0.png'', ''/srv/uploads/ref_1.png'']\<rparr> cluttered_state
       = (\<lparr>tempFiles = []\<rparr>,
          \<lparr>apiKeyValidated = False, disk = {''/srv/uploads/ref_0.png''},
           trace = [FsUnlink ''/srv/uploads/ref_0.png'', FsUnlink ''/srv/uploads/ref_1.png'']\<rparr>)"
  using C4_cleanup[of stuck_file_world "\<lparr>tempFiles = [''/srv/uploads/ref_0.png'', ''/srv/uploads/ref_1.png'']\<rparr>"
      cluttered_state]
  by (simp add: cleanup_def catchE_def returnE_def io_unlink_def stuck_file_world_def demo_world_def
      cluttered_state_def insert_Diff_if)

subsection \<open>C9: the prompt of each tier\<close>

text \<open>
  Claim C9. The request of the primary tier carries the whole trimmed prompt of the
  tier, the request of the secondary tier carries its first 1000 characters; so for a
  prompt of more than 1000 characters the secondary tier gets a shorter text than the
  prompt, and when the trimmed prompt is longer than 1000 characters the two tiers get
  different texts. With references the prompt of the tier is the prompt followed by the
  note on the references.
\<close>

theorem C9_secondary_prompt_truncated:
  "trace (snd (request_tier w hasReferences (JStr p) ''dall-e-3'' s))
     = trace s @ [HttpPost images_url
         (JObj [(''model'', JStr ''dall-e-3''),
                (''prompt'', JStr (trim (if hasReferences then p @ '' (inspired by provided reference images)'' else p))),
                (''quality'', JStr ''hd''), (''size'', JStr ''1024x1024''), (''response_format'', JStr ''b64_json'')])]
   \<and> trace (snd (request_tier w hasReferences (JStr p) ''dall-e-2'' s))
     = trace s @ [HttpPost images_url
         (JObj [(''model'', JStr ''dall-e-2''),
                (''prompt'', JStr (take 1000 (trim (if hasReferences then p @ '' (inspired by provided reference images)'' else p)))),
                (''size'', JStr ''1024x1024''), (''response_format'', JStr ''b64_json'')])]
   \<and> (1000 < length p \<longrightarrow>
        length (take 1000 (trim (if hasReferences then p @ '' (inspired by provided reference images)'' else p))) < length p)
   \<and> (1000 < length (trim p) \<longrightarrow>
        length (take 1000 (trim p)) = 1000 \<and> take 1000 (trim p) \<noteq> trim p)"
  by (auto simp add: request_tier_eq makeGenerationRequest_eq makeDalle2GenerationRequest_eq
      dalle3_requestBody_def dalle2_requestBody_def substring0_def)

text \<open>Witness for C9: a prompt of 1001 letters reaches the secondary tier as 1000 letters.\<close>

theorem C9_secondary_prompt_truncated_witness:
  "1000 < length (replicate 1001 (CHR ''a''))
   \<and> trim (replicate 1001 (CHR ''a'')) = replicate 1001 (CHR ''a'')
   \<and> trace (snd (request_tier demo_world False (JStr (replicate 1001 (CHR ''a''))) ''dall-e-2'' initial_state))
       = [HttpPost images_url
           (JObj [(''model'', JStr ''dall-e-2''), (''prompt'', JStr (replicate 1000 (CHR ''a''))),
                  (''size'', JStr ''1024x1024''), (''response_format'', JStr ''b64_json'')])]"
  using C9_secondary_prompt_truncated[of demo_world False "replicate 1001 (CHR ''a'')" initial_state]
  by (simp add: trim_def is_js_space_def initial_state_def)

subsection \<open>C10: the errors of the extraction\<close>

text \<open>
  Claim C10. Whenever \<open>extractImageData\<close> throws, the error is the new error
  \<open>Failed to extract image data from API response\<close>: when the response has no list of
  results or no first result, when the first result has neither \<open>b64_json\<close> nor
  \<open>url\<close>, and when the download of the \<open>url\<close> fails. In \<open>generateImage\<close> the caller
  gets this error, not the cause.
\<close>

theorem C10_extraction_errors_replaced:
  "(\<forall>e s'. extractImageData w response h s = (Inl e, s') \<longrightarrow>
        e = Error ''Failed to extract image data from API response'')
   \<and> (\<forall>e. get_member (res_data response) ''data'' = Inl e \<longrightarrow>
        extractImageData w response h s = (Inl (Error ''Failed to extract image data from API response''), s))
   \<and> (\<forall>d. get_member (res_data response) ''data'' = Inr d \<and> (\<forall>item. get_first d = Inr item \<longrightarrow> \<not> truthy item) \<longrightarrow>
        extractImageData w response h s = (Inl (Error ''Failed to extract image data from API response''), s))
   \<and> (\<forall>d item. get_member (res_data response) ''data'' = Inr d \<and> get_first d = Inr item \<and> truthy item
          \<and> \<not> truthy (opt_member item ''b64_json'') \<and> \<not> truthy (opt_member item ''url'') \<longrightarrow>
        extractImageData w response h s = (Inl (Error ''Failed to extract image data from API response''), s))
   \<and> (\<forall>d item e. get_member (res_data response) ''data'' = Inr d \<and> get_first d = Inr item \<and> truthy item
          \<and> \<not> truthy (opt_member item ''b64_json'') \<and> truthy (opt_member item ''url'')
          \<and> axios_get w (trace s) (opt_member item ''url'') = Inl e \<longrightarrow>
        extractImageData w response h s =
          (Inl (Error ''Failed to extract image data from API response''),
           s\<lparr>trace := trace s @ [HttpGet (opt_member item ''url'')]\<rparr>))
   \<and> (\<forall>u s0 r0 s2 e s3.
          validateInputs w ideaId prompt s = (Inr u, s0)
          \<and> pool_execute w (trace s0) ''UPDATE paintings SET status = ? WHERE idea_id = ?''
               [JStr ''processing'', ideaId] = Inr r0
          \<and> generate_with_fallback w (references \<noteq> []) prompt
               (s0\<lparr>trace := trace s0 @ [DbExecute ''UPDATE paintings SET status = ? WHERE idea_id = ?''
                  [JStr ''processing'', ideaId]]\<rparr>) = (Inr response, s2)
          \<and> extractImageData w response (references \<noteq> []) s2 = (Inl e, s3) \<longrightarrow>
        fst (generateImage w ideaId prompt references s)
          = Inl (Error ''Failed to extract image data from API response''))"
proof -
  have 1: "\<forall>e s'. extractImageData w response h s = (Inl e, s') \<longrightarrow>
        e = Error ''Failed to extract image data from API response''"
    using extractImageData_error by blast
  have 2: "\<forall>e. get_member (res_data response) ''data'' = Inl e \<longrightarrow>
        extractImageData w response h s = (Inl (Error ''Failed to extract image data from API response''), s)"
    by (simp add: extractImageData_def io_defs)
  have 3: "\<forall>d. get_member (res_data response) ''data'' = Inr d \<and> (\<forall>item. get_first d = Inr item \<longrightarrow> \<not> truthy item) \<longrightarrow>
        extractImageData w response h s = (Inl (Error ''Failed to extract image data from API response''), s)"
    by (auto simp add: extractImageData_def io_defs split: sum.splits)
  have 4: "\<forall>d item. get_member (res_data response) ''data'' = Inr d \<and> get_first d = Inr item \<and> truthy item
          \<and> \<not> truthy (opt_member item ''b64_json'') \<and> \<not> truthy (opt_member item ''url'') \<longrightarrow>
        extractImageData w response h s = (Inl (Error ''Failed to extract image data from API response''), s)"
    by (simp add: extract_item)
  have 5: "\<forall>d item e. get_member (res_data response) ''data'' = Inr d \<and> get_first d = Inr item \<and> truthy item
          \<and> \<not> truthy (opt_member item ''b64_json'') \<and> truthy (opt_member item ''url'')
          \<and> axios_get w (trace s) (opt_member item ''url'') = Inl e \<longrightarrow>
        extractImageData w response h s =
          (Inl (Error ''Failed to extract image data from API response''),
           s\<lparr>trace := trace s @ [HttpGet (opt_member item ''url'')]\<rparr>)"
    by (simp add: extract_item)
  have 6: "\<forall>u s0 r0 s2 e s3.
          validateInputs w ideaId prompt s = (Inr u, s0)
          \<and> pool_execute w (trace s0) ''UPDATE paintings SET status = ? WHERE idea_id = ?''
               [JStr ''processing'', ideaId] = Inr r0
          \<and> generate_with_fallback w (references \<noteq> []) prompt
               (s0\<lparr>trace := trace s0 @ [DbExecute ''UPDATE paintings SET status = ? WHERE idea_id = ?''
                  [JStr ''processing'', ideaId]]\<rparr>) = (Inr response, s2)
          \<and> extractImageData w response (references \<noteq> []) s2 = (Inl e, s3) \<longrightarrow>
        fst (generateImage w ideaId prompt references s)
          = Inl (Error ''Failed to extract image data from API response'')"
  proof (intro allI impI, elim conjE)
    fix u s0 r0 s2 e s3
    assume v: "validateInputs w ideaId prompt s = (Inr u, s0)"
      and pr: "pool_execute w (trace s0) ''UPDATE paintings SET status = ? WHERE idea_id = ?''
               [JStr ''processing'', ideaId] = Inr r0"
      and lad: "generate_with_fallback w (references \<noteq> []) prompt
               (s0\<lparr>trace := trace s0 @ [DbExecute ''UPDATE paintings SET status = ? WHERE idea_id = ?''
                  [JStr ''processing'', ideaId]]\<rparr>) = (Inr response, s2)"
      and ex: "extractImageData w response (references \<noteq> []) s2 = (Inl e, s3)"
    from validateInputs_ok[OF v] have "truthy ideaId" by blast
    then have undef: "ideaId \<noteq> JUndefined" by (simp add: truthy_not_undefined)
    from extractImageData_error[OF ex] have e: "e = Error ''Failed to extract image data from API response''" .
    have "generateImage_body w ideaId prompt references s0 = (Inl e, s3)"
      using generateImage_body_processing[OF undef pr, of prompt references] lad ex
      by (simp add: bindE_def complete_image_def)
    with v show "fst (generateImage w ideaId prompt references s)
          = Inl (Error ''Failed to extract image data from API response'')"
      by (simp add: generateImage_valid catchE_def record_failure_eq[OF undef] e)
  qed
  from 1 2 3 4 5 6 show ?thesis by (intro conjI)
qed


text \<open>
  Witness for C10: a response with an empty list of results, and a response with a
  \<open>url\<close> whose download is refused.
\<close>

theorem C10_extraction_errors_replaced_witness:
  "get_member (res_data (Response 200 (JObj [(''data'', JArr [])]))) ''data'' = Inr (JArr [])
   \<and> get_first (JArr []) = Inr JUndefined
   \<and> extractImageData demo_world (Response 200 (JObj [(''data'', JArr [])])) False initial_state
       = (Inl (Error ''Failed to extract image data from API response''), initial_state)
   \<and> extractImageData (demo_world\<lparr>axios_get := (\<lambda>h url. Inl (AxiosError ''Request failed with status code 404'' None True))\<rparr>)
        url_image False initial_state
       = (Inl (Error ''Failed to extract image data from API response''),
          initial_state\<lparr>trace := [HttpGet (JStr ''https://img.example/1.png'')]\<rparr>)"
proof -
  have d: "get_member (res_data (Response 200 (JObj [(''data'', JArr [])]))) ''data'' = Inr (JArr [])"
    by (simp add: get_member_def obj_get_def)
  have n: "\<forall>item. get_first (JArr []) = Inr item \<longrightarrow> \<not> truthy item"
    by (simp add: get_first_def)
  note a = C10_extraction_errors_replaced[of demo_world "Response 200 (JObj [(''data'', JArr [])])" False initial_state,
      THEN conjunct2, THEN conjunct2, THEN conjunct1, rule_format, OF conjI[OF d n]]
  have u: "get_member (res_data url_image) ''data'' = Inr (JArr [JObj [(''url'', JStr ''https://img.example/1.png'')]])"
    "get_first (JArr [JObj [(''url'', JStr ''https://img.example/1.png'')]]) = Inr (JObj [(''url'', JStr ''https://img.example/1.png'')])"
    "truthy (JObj [(''url'', JStr ''https://img.example/1.png'')])"
    "\<not> truthy (opt_member (JObj [(''url'', JStr ''https://img.example/1.png'')]) ''b64_json'')"
    "truthy (opt_member (JObj [(''url'', JStr ''https://img.example/1.png'')]) ''url'')"
    "axios_get (demo_world\<lparr>axios_get := (\<lambda>h url. Inl (AxiosError ''Request failed with status code 404'' None True))\<rparr>)
       (trace initial_state) (opt_member (JObj [(''url'', JStr ''https://img.example/1.png'')]) ''url'')
       = Inl (AxiosError ''Request failed with status code 404'' None True)"
    by (simp_all add: url_image_def get_member_def get_first_def opt_member_def obj_get_def)
  from C10_extraction_errors_replaced[of "demo_world\<lparr>axios_get := (\<lambda>h url. Inl (AxiosError ''Request failed with status code 404'' None True))\<rparr>"
      url_image False initial_state, THEN conjunct2, THEN conjunct2, THEN conjunct2, THEN conjunct2, THEN conjunct1,
      rule_format, OF conjI[OF u(1) conjI[OF u(2) conjI[OF u(3) conjI[OF u(4) conjI[OF u(5) u(6)]]]]]]
  have b: "extractImageData (demo_world\<lparr>axios_get := (\<lambda>h url. Inl (AxiosError ''Request failed with status code 404'' None True))\<rparr>)
        url_image False initial_state
       = (Inl (Error ''Failed to extract image data from API response''),
          initial_state\<lparr>trace := [HttpGet (JStr ''https://img.example/1.png'')]\<rparr>)"
    by (simp add: opt_member_def get_member_def obj_get_def initial_state_def)
  have f: "get_first (JArr []) = Inr JUndefined"
    by (simp add: get_first_def)
  from d f a b show ?thesis
    by (intro conjI)
qed

subsection \<open>C5: where the image comes from\<close>

text \<open>
  Claim C5. When the first result of the response has a \<open>b64_json\<close> payload,
  \<open>extractImageData\<close> returns it unchanged and makes no request. Otherwise, when it
  has a \<open>url\<close>, the bytes fetched from the \<open>url\<close> are returned in base64, and the
  \<open>image_data\<close> that a completed call stores is the data URL of exactly that
  encoding. When the result has neither, or the response has no first result, the
  extraction throws.
\<close>

theorem C5_extraction_prefers_inline:
  "(\<forall>d item. get_member (res_data response) ''data'' = Inr d \<and> get_first d = Inr item \<and> truthy item
        \<and> truthy (opt_member item ''b64_json'') \<longrightarrow>
      extractImageData w response h s = (Inr (opt_member item ''b64_json''), s))
   \<and> (\<forall>d item bytes. get_member (res_data response) ''data'' = Inr d \<and> get_first d = Inr item \<and> truthy item
        \<and> \<not> truthy (opt_member item ''b64_json'') \<and> truthy (opt_member item ''url'')
        \<and> axios_get w (trace s) (opt_member item ''url'') = Inr bytes \<longrightarrow>
      extractImageData w response h s =
        (Inr (JStr (base64_encode bytes)), s\<lparr>trace := trace s @ [HttpGet (opt_member item ''url'')]\<rparr>)
      \<and> (\<forall>ideaId references res s'.
            complete_image w ideaId references response s = (Inr res, s') \<longrightarrow>
            (\<exists>a c. last (trace s') =
               DbExecute ''UPDATE paintings SET status = ?, image_url = ?, image_data = ?, used_reference_ids = ? WHERE idea_id = ?''
                 [JStr ''completed'', JStr a, JStr (''data:image/png;base64,'' @ base64_encode bytes), c, ideaId])))
   \<and> (\<forall>d item. get_member (res_data response) ''data'' = Inr d \<and> get_first d = Inr item \<and> truthy item
        \<and> \<not> truthy (opt_member item ''b64_json'') \<and> \<not> truthy (opt_member item ''url'') \<longrightarrow>
      (\<exists>e. extractImageData w response h s = (Inl e, s)))
   \<and> (\<forall>d item. get_member (res_data response) ''data'' = Inr d \<and> get_first d = Inr item \<and> \<not> truthy item \<longrightarrow>
      (\<exists>e. extractImageData w response h s = (Inl e, s)))
   \<and> (\<forall>d e0. get_member (res_data response) ''data'' = Inl e0
           \<or> (get_member (res_data response) ''data'' = Inr d \<and> get_first d = Inl e0) \<longrightarrow>
      (\<exists>e. extractImageData w response h s = (Inl e, s)))"
proof -
  have 1: "\<forall>d item. get_member (res_data response) ''data'' = Inr d \<and> get_first d = Inr item \<and> truthy item
        \<and> truthy (opt_member item ''b64_json'') \<longrightarrow>
      extractImageData w response h s = (Inr (opt_member item ''b64_json''), s)"
    by (simp add: extract_item)
  have 2: "\<forall>d item bytes. get_member (res_data response) ''data'' = Inr d \<and> get_first d = Inr item \<and> truthy item
        \<and> \<not> truthy (opt_member item ''b64_json'') \<and> truthy (opt_member item ''url'')
        \<and> axios_get w (trace s) (opt_member item ''url'') = Inr bytes \<longrightarrow>
      extractImageData w response h s =
        (Inr (JStr (base64_encode bytes)), s\<lparr>trace := trace s @ [HttpGet (opt_member item ''url'')]\<rparr>)
      \<and> (\<forall>ideaId references res s'.
            complete_image w ideaId references response s = (Inr res, s') \<longrightarrow>
            (\<exists>a c. last (trace s') =
               DbExecute ''UPDATE paintings SET status = ?, image_url = ?, image_data = ?, used_reference_ids = ? WHERE idea_id = ?''
                 [JStr ''completed'', JStr a, JStr (''data:image/png;base64,'' @ base64_encode bytes), c, ideaId]))"
  proof (intro allI impI, elim conjE)
    fix d item bytes
    assume a: "get_member (res_data response) ''data'' = Inr d" "get_first d = Inr item" "truthy item"
      and b: "\<not> truthy (opt_member item ''b64_json'')" "truthy (opt_member item ''url'')"
        "axios_get w (trace s) (opt_member item ''url'') = Inr bytes"
    have ex: "extractImageData w response hh s =
        (Inr (JStr (base64_encode bytes)), s\<lparr>trace := trace s @ [HttpGet (opt_member item ''url'')]\<rparr>)" for hh
      using b by (simp add: extract_item[OF a])
    have "\<exists>a c. last (trace s') =
               DbExecute ''UPDATE paintings SET status = ?, image_url = ?, image_data = ?, used_reference_ids = ? WHERE idea_id = ?''
                 [JStr ''completed'', JStr a, JStr (''data:image/png;base64,'' @ base64_encode bytes), c, ideaId]"
      if ci: "complete_image w ideaId references response s = (Inr res, s')" for ideaId references res s'
      using complete_image_success[OF ci] by (auto simp add: ex)
    with ex show "extractImageData w response h s =
        (Inr (JStr (base64_encode bytes)), s\<lparr>trace := trace s @ [HttpGet (opt_member item ''url'')]\<rparr>)
      \<and> (\<forall>ideaId references res s'.
            complete_image w ideaId references response s = (Inr res, s') \<longrightarrow>
            (\<exists>a c. last (trace s') =
               DbExecute ''UPDATE paintings SET status = ?, image_url = ?, image_data = ?, used_reference_ids = ? WHERE idea_id = ?''
                 [JStr ''completed'', JStr a, JStr (''data:image/png;base64,'' @ base64_encode bytes), c, ideaId]))"
      by blast
  qed
  have 3: "\<forall>d item. get_member (res_data response) ''data'' = Inr d \<and> get_first d = Inr item \<and> truthy item
        \<and> \<not> truthy (opt_member item ''b64_json'') \<and> \<not> truthy (opt_member item ''url'') \<longrightarrow>
      (\<exists>e. extractImageData w response h s = (Inl e, s))"
    by (simp add: extract_item)
  have 4: "\<forall>d item. get_member (res_data response) ''data'' = Inr d \<and> get_first d = Inr item \<and> \<not> truthy item \<longrightarrow>
      (\<exists>e. extractImageData w response h s = (Inl e, s))"
    by (simp add: extractImageData_def io_defs)
  have 5: "\<forall>d e0. get_member (res_data response) ''data'' = Inl e0
           \<or> (get_member (res_data response) ''data'' = Inr d \<and> get_first d = Inl e0) \<longrightarrow>
      (\<exists>e. extractImageData w response h s = (Inl e, s))"
    by (auto simp add: extractImageData_def io_defs)
  from 1 2 3 4 5 show ?thesis by (intro conjI)
qed


text \<open>
  Witness for C5: the provider answers with a \<open>url\<close> and the two bytes \<open>hi\<close> are
  fetched; the call stores \<open>aGk=\<close>, their base64 encoding. An inline payload comes
  back as it is.
\<close>

theorem C5_extraction_prefers_inline_witness:
  "generateImage url_only_world (JNum 42) (JStr ''a red barn at sunset'') [] initial_state =
    (Inr (JObj [(''ideaId'', JNum 42), (''imageUrl'', JStr ''uploads/painting_42_1703.png''), (''status'', JStr ''completed'')]),
     \<lparr>apiKeyValidated = True, disk = {''/srv/uploads/painting_42_1703.png''},
      trace = [DbExecute ''UPDATE paintings SET status = ? WHERE idea_id = ?'' [JStr ''processing'', JNum 42],
               HttpPost images_url (dalle3_requestBody ''a red barn at sunset''),
               HttpGet (JStr ''https://img.example/1.png''),
               FsWriteFile ''/srv/uploads/painting_42_1703.png'' (JStr ''aGk=''),
               DbExecute ''UPDATE paintings SET status = ?, image_url = ?, image_data = ?, used_reference_ids = ? WHERE idea_id = ?''
                 [JStr ''completed'', JStr ''uploads/painting_42_1703.png'', JStr ''data:image/png;base64,aGk='', JNull, JNum 42]]\<rparr>)
   \<and> base64_encode [104, 105] = ''aGk=''
   \<and> extractImageData url_only_world url_image False initial_state
       = (Inr (JStr ''aGk=''), initial_state\<lparr>trace := [HttpGet (JStr ''https://img.example/1.png'')]\<rparr>)
   \<and> extractImageData demo_world inline_image False initial_state = (Inr (JStr ''aGk=''), initial_state)"
proof -
  have run: "generateImage url_only_world (JNum 42) (JStr ''a red barn at sunset'') [] initial_state =
    (Inr (JObj [(''ideaId'', JNum 42), (''imageUrl'', JStr ''uploads/painting_42_1703.png''), (''status'', JStr ''completed'')]),
     \<lparr>apiKeyValidated = True, disk = {''/srv/uploads/painting_42_1703.png''},
      trace = [DbExecute ''UPDATE paintings SET status = ? WHERE idea_id = ?'' [JStr ''processing'', JNum 42],
               HttpPost images_url (dalle3_requestBody ''a red barn at sunset''),
               HttpGet (JStr ''https://img.example/1.png''),
               FsWriteFile ''/srv/uploads/painting_42_1703.png'' (JStr ''aGk=''),
               DbExecute ''UPDATE paintings SET status = ?, image_url = ?, image_data = ?, used_reference_ids = ? WHERE idea_id = ?''
                 [JStr ''completed'', JStr ''uploads/painting_42_1703.png'', JStr ''data:image/png;base64,aGk='', JNull, JNum 42]]\<rparr>)"
    by (simp add: run_defs url_only_world_def b64_char_def)
  have enc: "base64_encode [104, 105] = ''aGk=''"
    by (simp add: b64_char_def)
  have u: "get_member (res_data url_image) ''data'' = Inr (JArr [JObj [(''url'', JStr ''https://img.example/1.png'')]])"
    "get_first (JArr [JObj [(''url'', JStr ''https://img.example/1.png'')]]) = Inr (JObj [(''url'', JStr ''https://img.example/1.png'')])"
    "truthy (JObj [(''url'', JStr ''https://img.example/1.png'')])"
    "\<not> truthy (opt_member (JObj [(''url'', JStr ''https://img.example/1.png'')]) ''b64_json'')"
    "truthy (opt_member (JObj [(''url'', JStr ''https://img.example/1.png'')]) ''url'')"
    "axios_get url_only_world (trace initial_state) (opt_member (JObj [(''url'', JStr ''https://img.example/1.png'')]) ''url'')
       = Inr [104, 105]"
    by (simp_all add: url_image_def get_member_def get_first_def opt_member_def obj_get_def url_only_world_def demo_world_def)
  from C5_extraction_prefers_inline[of url_image url_only_world False initial_state, THEN conjunct2, THEN conjunct1,
      rule_format, OF conjI[OF u(1) conjI[OF u(2) conjI[OF u(3) conjI[OF u(4) conjI[OF u(5) u(6)]]]]], THEN conjunct1]
  have a: "extractImageData url_only_world url_image False initial_state
       = (Inr (JStr ''aGk=''), initial_state\<lparr>trace := [HttpGet (JStr ''https://img.example/1.png'')]\<rparr>)"
    by (simp add: opt_member_def get_member_def obj_get_def initial_state_def b64_char_def)
  have i: "get_member (res_data inline_image) ''data'' = Inr (JArr [JObj [(''b64_json'', JStr ''aGk='')]])"
    "get_first (JArr [JObj [(''b64_json'', JStr ''aGk='')]]) = Inr (JObj [(''b64_json'', JStr ''aGk='')])"
    "truthy (JObj [(''b64_json'', JStr ''aGk='')])"
    "truthy (opt_member (JObj [(''b64_json'', JStr ''aGk='')]) ''b64_json'')"
    by (simp_all add: inline_image_def get_member_def get_first_def opt_member_def obj_get_def)
  from C5_extraction_prefers_inline[of inline_image demo_world False initial_state, THEN conjunct1,
      rule_format, OF conjI[OF i(1) conjI[OF i(2) conjI[OF i(3) i(4)]]]]
  have b: "extractImageData demo_world inline_image False initial_state = (Inr (JStr ''aGk=''), initial_state)"
    by (simp add: opt_member_def get_member_def obj_get_def)
  from run enc a b show ?thesis by (intro conjI)
qed


subsection \<open>C6: generateIdeas\<close>

lemma generateIdeas_request:
  assumes "truthy titleId" "truthy titleText" "truthy (OPENROUTER_API_KEY w)"
      and "previous_ideas_summary previousIdeas = Inr ctx"
      and "axios_post w (trace s) OPENROUTER_URL (chat_request titleText instructions ctx) = Inr response"
  shows "generateIdeas w titleId titleText instructions previousIdeas s =
     (let s1 = s\<lparr>trace := trace s @ [HttpPost OPENROUTER_URL (chat_request titleText instructions ctx)]\<rparr>
      in if \<not> truthy (tool_call_arguments response)
         then (Inl (Error ''No function arguments returned from OpenRouter.''), s1)
         else (case safeJSONParse (tool_call_arguments response) of
                 Inl e \<Rightarrow> (Inl e, s1)
               | Inr ideaData \<Rightarrow>
                   (case get_member ideaData ''summary'' of
                      Inl e \<Rightarrow> (Inl e, s1)
                    | Inr summary \<Rightarrow>
                        if \<not> truthy summary then (Inl (Error ''Incomplete idea data received from AI''), s1)
                        else (case get_member ideaData ''fullPrompt'' of
                                Inl e \<Rightarrow> (Inl e, s1)
                              | Inr fullPrompt \<Rightarrow>
                                  if \<not> truthy fullPrompt
                                  then (Inl (Error ''Incomplete idea data received from AI''), s1)
                                  else save_idea w titleId summary fullPrompt s1))))"
  using assms
  by (simp add: generateIdeas_def io_defs io_axios_post_def Let_def split: sum.splits)

lemma save_idea_eq:
  assumes "titleId \<noteq> JUndefined" "summary \<noteq> JUndefined" "fullPrompt \<noteq> JUndefined"
  shows "save_idea w titleId summary fullPrompt s =
     (let s1 = s\<lparr>trace := trace s @ [DbExecute ''INSERT INTO ideas (title_id, summary, full_prompt) VALUES (?, ?, ?)''
                                          [titleId, summary, fullPrompt]]\<rparr>
      in case pool_execute w (trace s) ''INSERT INTO ideas (title_id, summary, full_prompt) VALUES (?, ?, ?)''
                [titleId, summary, fullPrompt] of
           Inl e \<Rightarrow> (Inl e, s1)
         | Inr rows \<Rightarrow>
             (case destructure_first rows of
                Inl e \<Rightarrow> (Inl e, s1)
              | Inr result \<Rightarrow>
                  (case get_member result ''insertId'' of
                     Inl e \<Rightarrow> (Inl e, s1)
                   | Inr insertId \<Rightarrow>
                       (Inr (JObj [(''id'', insertId), (''titleId'', titleId),
                                   (''summary'', summary), (''fullPrompt'', fullPrompt)]), s1))))"
  using assms
  by (simp add: save_idea_def io_defs io_pool_execute_def Let_def split: sum.splits)

text \<open>
  Claim C6. Take a call of \<open>generateIdeas\<close> with a title id, a title text and an API
  key, whose request the provider answered. When the arguments of the tool call parse
  to a value with a non-empty \<open>summary\<close> and a non-empty \<open>fullPrompt\<close>, and the
  database accepts the insertion, the call has inserted the row
  \<open>(titleId, summary, fullPrompt)\<close> and returns \<open>{id, titleId, summary, fullPrompt}\<close>
  with the fields of the provider and the \<open>insertId\<close> of the database. When the tool
  call or its arguments are missing, when a required field is missing or empty, and
  when the arguments do not parse, the call throws and nothing is inserted.
\<close>

theorem C6_generateIdeas:
  assumes "truthy titleId" and "truthy titleText" and "truthy (OPENROUTER_API_KEY w)"
      and "previous_ideas_summary previousIdeas = Inr ctx"
      and "request = HttpPost OPENROUTER_URL (chat_request titleText instructions ctx)"
      and "axios_post w (trace s) OPENROUTER_URL (chat_request titleText instructions ctx) = Inr response"
  shows
    "(\<forall>ideaData summary fullPrompt rows result insertId.
        truthy (tool_call_arguments response)
        \<and> safeJSONParse (tool_call_arguments response) = Inr ideaData
        \<and> get_member ideaData ''summary'' = Inr summary \<and> truthy summary
        \<and> get_member ideaData ''fullPrompt'' = Inr fullPrompt \<and> truthy fullPrompt
        \<and> pool_execute w (trace s @ [request]) ''INSERT INTO ideas (title_id, summary, full_prompt) VALUES (?, ?, ?)''
             [titleId, summary, fullPrompt] = Inr rows
        \<and> destructure_first rows = Inr result \<and> get_member result ''insertId'' = Inr insertId \<longrightarrow>
        generateIdeas w titleId titleText instructions previousIdeas s =
          (Inr (JObj [(''id'', insertId), (''titleId'', titleId), (''summary'', summary), (''fullPrompt'', fullPrompt)]),
           s\<lparr>trace := trace s @ [request,
                DbExecute ''INSERT INTO ideas (title_id, summary, full_prompt) VALUES (?, ?, ?)''
                  [titleId, summary, fullPrompt]]\<rparr>))
   \<and> (\<not> truthy (tool_call_arguments response) \<longrightarrow>
        generateIdeas w titleId titleText instructions previousIdeas s =
          (Inl (Error ''No function arguments returned from OpenRouter.''), s\<lparr>trace := trace s @ [request]\<rparr>))
   \<and> (\<forall>kvs. truthy (tool_call_arguments response)
        \<and> safeJSONParse (tool_call_arguments response) = Inr (JObj kvs)
        \<and> (\<not> truthy (obj_get kvs ''summary'') \<or> \<not> truthy (obj_get kvs ''fullPrompt'')) \<longrightarrow>
        generateIdeas w titleId titleText instructions previousIdeas s =
          (Inl (Error ''Incomplete idea data received from AI''), s\<lparr>trace := trace s @ [request]\<rparr>))
   \<and> (\<forall>e. truthy (tool_call_arguments response) \<and> safeJSONParse (tool_call_arguments response) = Inl e \<longrightarrow>
        generateIdeas w titleId titleText instructions previousIdeas s = (Inl e, s\<lparr>trace := trace s @ [request]\<rparr>))"
proof -
  note req = generateIdeas_request[OF assms(1-4) assms(6)]
  have 1: "\<forall>ideaData summary fullPrompt rows result insertId.
        truthy (tool_call_arguments response)
        \<and> safeJSONParse (tool_call_arguments response) = Inr ideaData
        \<and> get_member ideaData ''summary'' = Inr summary \<and> truthy summary
        \<and> get_member ideaData ''fullPrompt'' = Inr fullPrompt \<and> truthy fullPrompt
        \<and> pool_execute w (trace s @ [request]) ''INSERT INTO ideas (title_id, summary, full_prompt) VALUES (?, ?, ?)''
             [titleId, summary, fullPrompt] = Inr rows
        \<and> destructure_first rows = Inr result \<and> get_member result ''insertId'' = Inr insertId \<longrightarrow>
        generateIdeas w titleId titleText instructions previousIdeas s =
          (Inr (JObj [(''id'', insertId), (''titleId'', titleId), (''summary'', summary), (''fullPrompt'', fullPrompt)]),
           s\<lparr>trace := trace s @ [request,
                DbExecute ''INSERT INTO ideas (title_id, summary, full_prompt) VALUES (?, ?, ?)''
                  [titleId, summary, fullPrompt]]\<rparr>)"
    using assms(1)
    by (auto simp add: req assms(5) Let_def save_idea_eq truthy_not_undefined)
  have 2: "\<not> truthy (tool_call_arguments response) \<longrightarrow>
        generateIdeas w titleId titleText instructions previousIdeas s =
          (Inl (Error ''No function arguments returned from OpenRouter.''), s\<lparr>trace := trace s @ [request]\<rparr>)"
    by (simp add: req assms(5) Let_def)
  have 3: "\<forall>kvs. truthy (tool_call_arguments response)
        \<and> safeJSONParse (tool_call_arguments response) = Inr (JObj kvs)
        \<and> (\<not> truthy (obj_get kvs ''summary'') \<or> \<not> truthy (obj_get kvs ''fullPrompt'')) \<longrightarrow>
        generateIdeas w titleId titleText instructions previousIdeas s =
          (Inl (Error ''Incomplete idea data received from AI''), s\<lparr>trace := trace s @ [request]\<rparr>)"
    by (auto simp add: req assms(5) Let_def get_member_def)
  have 4: "\<forall>e. truthy (tool_call_arguments response) \<and> safeJSONParse (tool_call_arguments response) = Inl e \<longrightarrow>
        generateIdeas w titleId titleText instructions previousIdeas s = (Inl e, s\<lparr>trace := trace s @ [request]\<rparr>)"
    by (simp add: req assms(5) Let_def)
  from 1 2 3 4 show ?thesis by (intro conjI)
qed


text \<open>Witness for C6: the example provider and database; the idea gets the identifier 7.\<close>

theorem C6_generateIdeas_witness:
  "generateIdeas demo_world (JNum 5) (JStr ''Harvest'') JUndefined [] initial_state =
    (Inr (JObj [(''id'', JNum 7), (''titleId'', JNum 5), (''summary'', JStr ''A red barn''),
                (''fullPrompt'', JStr ''Paint a red barn at sunset'')]),
     \<lparr>apiKeyValidated = False, disk = {},
      trace = [HttpPost OPENROUTER_URL (chat_request (JStr ''Harvest'') JUndefined []),
               DbExecute ''INSERT INTO ideas (title_id, summary, full_prompt) VALUES (?, ?, ?)''
                 [JNum 5, JStr ''A red barn'', JStr ''Paint a red barn at sunset'']]\<rparr>)
   \<and> tool_call_arguments (tool_call_response (JStr idea_arguments)) = JStr idea_arguments
   \<and> safeJSONParse (JStr idea_arguments)
       = Inr (JObj [(''summary'', JStr ''A red barn''), (''fullPrompt'', JStr ''Paint a red barn at sunset'')])"
proof -
  have t: "truthy (JNum 5)" "truthy (JStr ''Harvest'')" "truthy (OPENROUTER_API_KEY demo_world)"
    by (simp_all add: demo_world_def)
  have ps: "previous_ideas_summary [] = Inr []"
    by (simp add: previous_ideas_summary_def)
  have ax: "axios_post demo_world (trace initial_state) OPENROUTER_URL (chat_request (JStr ''Harvest'') JUndefined [])
              = Inr (tool_call_response (JStr idea_arguments))"
    by (simp add: demo_world_def)
  have args: "tool_call_arguments (tool_call_response (JStr idea_arguments)) = JStr idea_arguments"
    by (simp add: tool_call_arguments_def tool_call_response_def opt_member_def opt_first_def
        get_member_def get_first_def obj_get_def)
  have parse: "safeJSONParse (JStr idea_arguments)
       = Inr (JObj [(''summary'', JStr ''A red barn''), (''fullPrompt'', JStr ''Paint a red barn at sunset'')])"
    by (simp add: safeJSONParse_def json_defs idea_arguments_def)
  have hyps: "truthy (tool_call_arguments (tool_call_response (JStr idea_arguments)))
        \<and> safeJSONParse (tool_call_arguments (tool_call_response (JStr idea_arguments)))
            = Inr (JObj [(''summary'', JStr ''A red barn''), (''fullPrompt'', JStr ''Paint a red barn at sunset'')])
        \<and> get_member (JObj [(''summary'', JStr ''A red barn''), (''fullPrompt'', JStr ''Paint a red barn at sunset'')])
             ''summary'' = Inr (JStr ''A red barn'')
        \<and> truthy (JStr ''A red barn'')
        \<and> get_member (JObj [(''summary'', JStr ''A red barn''), (''fullPrompt'', JStr ''Paint a red barn at sunset'')])
             ''fullPrompt'' = Inr (JStr ''Paint a red barn at sunset'')
        \<and> truthy (JStr ''Paint a red barn at sunset'')
        \<and> pool_execute demo_world
             (trace initial_state @ [HttpPost OPENROUTER_URL (chat_request (JStr ''Harvest'') JUndefined [])])
             ''INSERT INTO ideas (title_id, summary, full_prompt) VALUES (?, ?, ?)''
             [JNum 5, JStr ''A red barn'', JStr ''Paint a red barn at sunset'']
            = Inr (JArr [JObj [(''insertId'', JNum 7)], JUndefined])
        \<and> destructure_first (JArr [JObj [(''insertId'', JNum 7)], JUndefined]) = Inr (JObj [(''insertId'', JNum 7)])
        \<and> get_member (JObj [(''insertId'', JNum 7)]) ''insertId'' = Inr (JNum 7)"
  proof -
    have ne: "truthy (JStr idea_arguments)"
      by (simp add: idea_arguments_def)
    then show ?thesis
      by (simp add: args parse get_member_def obj_get_def demo_world_def destructure_first_def)
  qed
  from C6_generateIdeas[OF t ps refl ax, THEN conjunct1, rule_format, OF hyps]
  have run: "generateIdeas demo_world (JNum 5) (JStr ''Harvest'') JUndefined [] initial_state =
    (Inr (JObj [(''id'', JNum 7), (''titleId'', JNum 5), (''summary'', JStr ''A red barn''),
                (''fullPrompt'', JStr ''Paint a red barn at sunset'')]),
     \<lparr>apiKeyValidated = False, disk = {},
      trace = [HttpPost OPENROUTER_URL (chat_request (JStr ''Harvest'') JUndefined []),
               DbExecute ''INSERT INTO ideas (title_id, summary, full_prompt) VALUES (?, ?, ?)''
                 [JNum 5, JStr ''A red barn'', JStr ''Paint a red barn at sunset'']]\<rparr>)"
    by (simp add: initial_state_def)
  from run args parse show ?thesis by (intro conjI)
qed

subsection \<open>C7: safeJSONParse\<close>

lemma replace_char_map:
  "replace_char c [r] t = map (\<lambda>x. if x = c then r else x) t"
  by (induction t) (simp_all add: replace_char_def)

lemma unescape_char_id: "CHR 0x5C \<notin> set t \<Longrightarrow> unescape_char q t = t"
  by (induction q t rule: unescape_char.induct) auto

lemma cleaned_text_plain:
  assumes "CHR 0x5C \<notin> set t"
  shows "cleaned_text t = map (\<lambda>c. if c = CHR 0x0A \<or> c = CHR 0x0D then CHR 0x20 else c) t"
proof -
  have a: "replace_char (CHR 0x0D) '' '' (replace_char (CHR 0x0A) '' '' t)
             = map (\<lambda>c. if c = CHR 0x0A \<or> c = CHR 0x0D then CHR 0x20 else c) t"
    by (simp add: replace_char_map)
  have "CHR 0x5C \<notin> set (map (\<lambda>c. if c = CHR 0x0A \<or> c = CHR 0x0D then CHR 0x20 else c) t)"
    using assms by auto
  then show ?thesis
    by (simp add: cleaned_text_def a unescape_char_id)
qed

lemma parse_newline_arguments:
  "JSON_parse newline_arguments = Inl (SyntaxError ''Unexpected token in JSON'')"
  by (simp add: json_defs newline_arguments_def)

lemma parse_cleaned_newline_arguments:
  "JSON_parse (cleaned_text newline_arguments) = Inr (JObj [(''summary'', JStr ''a b''), (''fullPrompt'', JStr ''c'')])"
  by (simp add: json_defs newline_arguments_def)

text \<open>
  Claim C7, as the code has it. \<open>safeJSONParse\<close> returns the strict parse of a text
  when there is one. Otherwise it parses the repaired text once and returns that
  result, value or error. For a text with no backslash the repaired text is the text
  with each line feed and carriage return replaced by a space, so a text that only has
  line breaks inside its strings, and no escaped quote, yields its fields with a
  space for each line break: \<open>{"summary":"a\<newline>b","fullPrompt":"c"}\<close> gives the summary
  \<open>a b\<close>.
\<close>

theorem C7_two_stage_parse:
  "(\<forall>v. JSON_parse text = Inr v \<longrightarrow> safeJSONParse (JStr text) = Inr v)
   \<and> (\<forall>e. JSON_parse text = Inl e \<longrightarrow> safeJSONParse (JStr text) = JSON_parse (cleaned_text text))
   \<and> (CHR 0x5C \<notin> set text \<longrightarrow>
        cleaned_text text = map (\<lambda>c. if c = CHR 0x0A \<or> c = CHR 0x0D then CHR 0x20 else c) text)
   \<and> safeJSONParse (JStr newline_arguments) = Inr (JObj [(''summary'', JStr ''a b''), (''fullPrompt'', JStr ''c'')])"
proof -
  have 1: "\<forall>v. JSON_parse text = Inr v \<longrightarrow> safeJSONParse (JStr text) = Inr v"
    by (simp add: safeJSONParse_def)
  have 2: "\<forall>e. JSON_parse text = Inl e \<longrightarrow> safeJSONParse (JStr text) = JSON_parse (cleaned_text text)"
    by (simp add: safeJSONParse_def Let_def split: sum.splits)
  have 3: "CHR 0x5C \<notin> set text \<longrightarrow>
        cleaned_text text = map (\<lambda>c. if c = CHR 0x0A \<or> c = CHR 0x0D then CHR 0x20 else c) text"
    using cleaned_text_plain by blast
  have 4: "safeJSONParse (JStr newline_arguments) = Inr (JObj [(''summary'', JStr ''a b''), (''fullPrompt'', JStr ''c'')])"
    by (simp add: safeJSONParse_def parse_newline_arguments parse_cleaned_newline_arguments)
  from 1 2 3 4 show ?thesis by (intro conjI)
qed


text \<open>
  Witness for C7: the text with a line feed in the summary has no strict parse and no
  backslash; its repaired text parses to the two fields.
\<close>

theorem C7_two_stage_parse_witness:
  "JSON_parse newline_arguments = Inl (SyntaxError ''Unexpected token in JSON'')
   \<and> CHR 0x5C \<notin> set newline_arguments
   \<and> cleaned_text newline_arguments
       = ''{'' @ quoted ''summary'' @ '':'' @ quoted ''a b'' @ '','' @ quoted ''fullPrompt'' @ '':'' @ quoted ''c'' @ ''}''
   \<and> safeJSONParse (JStr newline_arguments) = JSON_parse (cleaned_text newline_arguments)
   \<and> JSON_parse (cleaned_text newline_arguments) = Inr (JObj [(''summary'', JStr ''a b''), (''fullPrompt'', JStr ''c'')])"
proof -
  have nb: "CHR 0x5C \<notin> set newline_arguments"
    by (simp add: newline_arguments_def quoted_def)
  from C7_two_stage_parse[of newline_arguments, THEN conjunct2, THEN conjunct2, THEN conjunct1, rule_format, OF nb]
  have c: "cleaned_text newline_arguments
       = ''{'' @ quoted ''summary'' @ '':'' @ quoted ''a b'' @ '','' @ quoted ''fullPrompt'' @ '':'' @ quoted ''c'' @ ''}''"
    by (simp add: newline_arguments_def quoted_def)
  from C7_two_stage_parse[of newline_arguments, THEN conjunct2, THEN conjunct1, rule_format, OF parse_newline_arguments]
  have s: "safeJSONParse (JStr newline_arguments) = JSON_parse (cleaned_text newline_arguments)" .
  from parse_newline_arguments nb c s parse_cleaned_newline_arguments show ?thesis
    by (intro conjI)
qed


text \<open>
  Counterexample to C7 as stated: \<open>{"summary":"a\<newline>\"b\"","fullPrompt":"c"}\<close> is
  malformed only by the line feed in the summary (with the line feed escaped it is
  JSON). The repair also removes the backslashes of the escaped quotes, the repaired
  text is not JSON, and \<open>safeJSONParse\<close> throws: the fields are not obtained.
\<close>

theorem C7_counterexample:
  "JSON_parse (replace_char (CHR 0x0A) [CHR 0x5C, CHR ''n''] quoted_newline_arguments)
     = Inr (JObj [(''summary'', JStr (''a'' @ [CHR 0x0A, CHR 0x22] @ ''b'' @ [CHR 0x22])), (''fullPrompt'', JStr ''c'')])
   \<and> JSON_parse quoted_newline_arguments = Inl (SyntaxError ''Unexpected token in JSON'')
   \<and> cleaned_text quoted_newline_arguments
       = ''{'' @ quoted ''summary'' @ '':'' @ quoted (''a '' @ quoted ''b'') @ '','' @ quoted ''fullPrompt'' @ '':'' @ quoted ''c'' @ ''}''
   \<and> safeJSONParse (JStr quoted_newline_arguments) = Inl (SyntaxError ''Unexpected token in JSON'')"
  by (simp add: json_defs quoted_newline_arguments_def safeJSONParse_def)


subsection \<open>C8: errors before any effect\<close>

lemma trim_Nil: "trim [] = []"
  by (simp add: trim_def)

text \<open>
  The flag \<open>apiKeyValidated\<close> is set only by a call that found the key or found the
  flag set: when it is set, the key is there.
\<close>

lemma key_seen_before_flag:
  assumes "apiKeyValidated s \<longrightarrow> truthy (OPENAI_API_KEY w)"
  shows "apiKeyValidated (snd (generateImage w ideaId prompt references s)) \<longrightarrow> truthy (OPENAI_API_KEY w)"
proof (cases "validateInputs w ideaId prompt s")
  case (Pair r s0)
  show ?thesis
  proof (cases r)
    case (Inl e)
    with Pair have "s0 = s"
      by (auto simp add: validateInputs_def split: if_splits sum.splits bool.splits)
    with Pair Inl assms show ?thesis by (simp add: generateImage_def)
  next
    case (Inr u)
    with Pair validateInputs_ok[of w ideaId prompt s u s0] assms
    have "truthy (OPENAI_API_KEY w)" by auto
    then show ?thesis by simp
  qed
qed

text \<open>
  Claim C8. \<open>generateImage\<close> with a missing idea id, with a missing or blank prompt,
  or with no API key throws and leaves the state as it was: no statement, no request,
  no file. (The key is looked at while the flag \<open>apiKeyValidated\<close> is not set, and a
  call keeps the property that the flag is set only when the key is there.) \<open>updatePaintingStatus\<close> and the
  insertion of an idea throw before giving a statement to the database when a
  parameter is \<open>undefined\<close>.
\<close>

theorem C8_no_side_effects:
  "(\<not> truthy ideaId \<longrightarrow>
      generateImage w ideaId prompt references s = (Inl (Error ''Idea ID is required for image generation''), s))
   \<and> (truthy ideaId \<and> (\<not> truthy prompt \<or> (\<exists>t. prompt = JStr t \<and> trim t = [])) \<longrightarrow>
      generateImage w ideaId prompt references s = (Inl (Error ''Prompt is required for image generation''), s))
   \<and> (\<not> truthy (OPENAI_API_KEY w) \<and> \<not> apiKeyValidated s \<longrightarrow>
      (\<exists>e. generateImage w ideaId prompt references s = (Inl e, s)))
   \<and> (truthy ideaId \<and> (\<exists>t. prompt = JStr t \<and> trim t \<noteq> []) \<and> \<not> truthy (OPENAI_API_KEY w) \<and> \<not> apiKeyValidated s \<longrightarrow>
      generateImage w ideaId prompt references s
        = (Inl (Error ''OpenAI API key is missing. Please check your .env file.''), s))
   \<and> (JUndefined \<in> set (map snd (obj_spread [(''status'', status)] additionalFields) @ [ideaId]) \<longrightarrow>
      updatePaintingStatus w ideaId status additionalFields s = (Inl (Error ''Invalid query parameter detected''), s))
   \<and> (JUndefined \<in> set [titleId, summary, fullPrompt] \<longrightarrow>
      save_idea w titleId summary fullPrompt s = (Inl (Error ''Invalid query parameter detected''), s))
   \<and> ((apiKeyValidated s \<longrightarrow> truthy (OPENAI_API_KEY w)) \<longrightarrow>
      (apiKeyValidated (snd (generateImage w ideaId prompt references s)) \<longrightarrow> truthy (OPENAI_API_KEY w)))"
proof -
  have 1: "\<not> truthy ideaId \<longrightarrow>
      generateImage w ideaId prompt references s = (Inl (Error ''Idea ID is required for image generation''), s)"
    by (simp add: generateImage_def validateInputs_def)
  have 2: "truthy ideaId \<and> (\<not> truthy prompt \<or> (\<exists>t. prompt = JStr t \<and> trim t = [])) \<longrightarrow>
      generateImage w ideaId prompt references s = (Inl (Error ''Prompt is required for image generation''), s)"
    by (auto simp add: generateImage_def validateInputs_def js_trim_def trim_Nil)
  have 3: "\<not> truthy (OPENAI_API_KEY w) \<and> \<not> apiKeyValidated s \<longrightarrow>
      (\<exists>e. generateImage w ideaId prompt references s = (Inl e, s))"
    by (auto simp add: generateImage_def validateInputs_def split: sum.splits bool.splits)
  have 4: "truthy ideaId \<and> (\<exists>t. prompt = JStr t \<and> trim t \<noteq> []) \<and> \<not> truthy (OPENAI_API_KEY w) \<and> \<not> apiKeyValidated s \<longrightarrow>
      generateImage w ideaId prompt references s
        = (Inl (Error ''OpenAI API key is missing. Please check your .env file.''), s)"
    by (auto simp add: generateImage_def validateInputs_def js_trim_def trim_Nil)
  have 5: "JUndefined \<in> set (map snd (obj_spread [(''status'', status)] additionalFields) @ [ideaId]) \<longrightarrow>
      updatePaintingStatus w ideaId status additionalFields s = (Inl (Error ''Invalid query parameter detected''), s)"
    by (simp add: updatePaintingStatus_def Let_def throwE_def)
  have 6: "JUndefined \<in> set [titleId, summary, fullPrompt] \<longrightarrow>
      save_idea w titleId summary fullPrompt s = (Inl (Error ''Invalid query parameter detected''), s)"
    by (simp add: save_idea_def Let_def throwE_def)
  have 7: "(apiKeyValidated s \<longrightarrow> truthy (OPENAI_API_KEY w)) \<longrightarrow>
      (apiKeyValidated (snd (generateImage w ideaId prompt references s)) \<longrightarrow> truthy (OPENAI_API_KEY w))"
    using key_seen_before_flag by blast
  from 1 2 3 4 5 6 7 show ?thesis by (intro conjI)
qed


text \<open>
  Witness for C8: no key in the environment, the idea id 0, a prompt of three spaces,
  an \<open>undefined\<close> field of the update and an \<open>undefined\<close> summary of the insertion.
\<close>

theorem C8_no_side_effects_witness:
  "\<not> truthy (OPENAI_API_KEY no_key_world)
   \<and> \<not> apiKeyValidated initial_state
   \<and> generateImage no_key_world (JNum 42) (JStr ''a red barn at sunset'') [] initial_state
       = (Inl (Error ''OpenAI API key is missing. Please check your .env file.''), initial_state)
   \<and> generateImage demo_world (JNum 0) (JStr ''a red barn at sunset'') [] initial_state
       = (Inl (Error ''Idea ID is required for image generation''), initial_state)
   \<and> generateImage demo_world (JNum 42) (JStr ''   '') [] initial_state
       = (Inl (Error ''Prompt is required for image generation''), initial_state)
   \<and> updatePaintingStatus demo_world (JNum 42) (JStr ''completed'') [(''image_url'', JUndefined)] initial_state
       = (Inl (Error ''Invalid query parameter detected''), initial_state)
   \<and> save_idea demo_world (JNum 5) JUndefined (JStr ''Paint a red barn at sunset'') initial_state
       = (Inl (Error ''Invalid query parameter detected''), initial_state)"
proof -
  have k: "\<not> truthy (OPENAI_API_KEY no_key_world)" "\<not> apiKeyValidated initial_state"
    by (simp_all add: no_key_world_def demo_world_def initial_state_def)
  have p: "truthy (JNum 42) \<and> (\<exists>t. JStr ''a red barn at sunset'' = JStr t \<and> trim t \<noteq> [])
            \<and> \<not> truthy (OPENAI_API_KEY no_key_world) \<and> \<not> apiKeyValidated initial_state"
    using k by (simp add: trim_def is_js_space_def)
  note a = C8_no_side_effects[of _ no_key_world _ _ initial_state, THEN conjunct2, THEN conjunct2, THEN conjunct2,
      THEN conjunct1, rule_format, OF p, of "[]"]
  have z: "\<not> truthy (JNum 0)" by simp
  note b = C8_no_side_effects[of "JNum 0" demo_world "JStr ''a red barn at sunset''" "[]" initial_state, THEN conjunct1,
      rule_format, OF z]
  have bl: "truthy (JNum 42) \<and> (\<not> truthy (JStr ''   '') \<or> (\<exists>t. JStr ''   '' = JStr t \<and> trim t = []))"
    by (simp add: trim_def is_js_space_def)
  note c = C8_no_side_effects[of "JNum 42" demo_world "JStr ''   ''" "[]" initial_state, THEN conjunct2, THEN conjunct1,
      rule_format, OF bl]
  have u: "JUndefined \<in> set (map snd (obj_spread [(''status'', JStr ''completed'')] [(''image_url'', JUndefined)]) @ [JNum 42])"
    by (simp add: obj_spread_def)
  note d = C8_no_side_effects[of _ demo_world _ _ initial_state "JStr ''completed''" "[(''image_url'', JUndefined)]",
      THEN conjunct2, THEN conjunct2, THEN conjunct2, THEN conjunct2, THEN conjunct1, rule_format, OF u]
  have v: "JUndefined \<in> set [JNum 5, JUndefined, JStr ''Paint a red barn at sunset'']"
    by simp
  note e = C8_no_side_effects[of _ demo_world _ _ initial_state _ _ "JNum 5" JUndefined "JStr ''Paint a red barn at sunset''",
      THEN conjunct2, THEN conjunct2, THEN conjunct2, THEN conjunct2, THEN conjunct2, THEN conjunct1, rule_format, OF v]
  from k a b c d e show ?thesis by (intro conjI)
qed


end
